theory Spec2Isabelle
  imports Complex_Main
begin

section \<open>Data model\<close>

text \<open>
  The bot of \<^verbatim>\<open>src/bot.py\<close> and its ledger of \<^verbatim>\<open>src/order_storage.py\<close>.

  Numbers: prices, volumes and percentages are Python floats in the source. They are
  modelled as exact reals (the spec calls them decimals), so every arithmetic statement
  below is about the exact value of the source expression, not about its binary64
  rounding. Order ids, timestamps and candle counts are Python ints, modelled as \<open>int\<close>.

  Strings: \<open>side\<close> and \<open>status\<close> are \<open>String\<close> columns compared with string
  constants, and stay strings here.
\<close>

text \<open>\<^verbatim>\<open>binance.enums\<close>: the two side constants, the order type and the time in force,
  and \<^verbatim>\<open>Client.KLINE_INTERVAL_1MINUTE\<close>, with the values python-binance gives them.\<close>

definition SIDE_BUY :: string where "SIDE_BUY = ''BUY''"
definition SIDE_SELL :: string where "SIDE_SELL = ''SELL''"
definition ORDER_TYPE_LIMIT :: string where "ORDER_TYPE_LIMIT = ''LIMIT''"
definition TIME_IN_FORCE_GTC :: string where "TIME_IN_FORCE_GTC = ''GTC''"
definition KLINE_INTERVAL_1MINUTE :: string where "KLINE_INTERVAL_1MINUTE = ''1m''"

text \<open>What a call of the Binance client can raise: \<open>BinanceAPIException\<close> for an error
  answer of the exchange (the only one the source catches by name),
  \<open>BinanceRequestException\<close> for an answer the library cannot read, and the HTTP
  library's \<open>RequestException\<close> for a connection that fails. The result of a gateway
  call is \<open>gateway_exception + 'a\<close>, with \<open>Inl\<close> the exception raised.\<close>

datatype gateway_exception =
    BinanceAPIException string
  | BinanceRequestException string
  | RequestException string

type_synonym 'a api_result = "gateway_exception + 'a"

text \<open>The exceptions the modelled code can raise: those of the gateway, the
  \<open>ValueError\<close> of \<open>get_moving_average\<close>, the two the interpreter raises for an unbound
  local and for a format that does not fit its value, and the \<open>EOFError\<close> of \<open>input\<close>.
  All are subclasses of \<open>Exception\<close>, so an \<open>except Exception\<close> catches each of them.
  \<open>KeyboardInterrupt\<close>, which the user can cause at any statement and which \<open>main\<close>
  catches, is not modelled.\<close>

datatype exn =
    GatewayException gateway_exception
  | ValueError string
  | UnboundLocalError string
  | TypeError string
  | EOFError

text \<open>\<^verbatim>\<open>class Order(Base)\<close>, order_storage.py lines 7-15: one row of table \<open>orders\<close>.\<close>

record Order =
  order_id :: int
  symbol :: string
  side :: string
  price :: real
  volume :: real
  status :: string
  created_at :: int

text \<open>One element of the exchange's open-order list, a dict read at the keys
  \<open>orderId\<close>, \<open>symbol\<close>, \<open>side\<close>, \<open>price\<close>, \<open>origQty\<close>. The exchange sends the two
  numbers as decimal strings and the source applies \<open>float\<close>; here they are the parsed
  numbers.\<close>

record open_order =
  o_orderId :: int
  o_symbol :: string
  o_side :: string
  o_price :: real
  o_origQty :: real

text \<open>One candle of \<open>client.get_klines\<close>. The source reads only index 4, the close.\<close>

record kline =
  k_open_time :: int
  k_open :: real
  k_high :: real
  k_low :: real
  k_close :: real
  k_volume :: real

text \<open>\<^verbatim>\<open>settings.json\<close>: a key read with \<open>[...]\<close> is a plain field, a key read with
  \<open>.get(key, default)\<close> is an optional field.\<close>

record symbol_config =
  is_active :: "bool option"
  profit_percent :: real
  volume_buy :: real
  volume_sell :: real
  price_min :: real
  price_max :: real
  price_precision :: "nat option"
  volume_precision :: "nat option"
  adaptive_limit_percent :: "real option"
  moving_average_period_min :: "int option"

record global_settings =
  api_key :: string
  api_sec :: string
  fee_percent :: real
  confirm_order :: "bool option"
  poll_interval_sec :: "real option"

record settings =
  global :: global_settings
  symbols :: "(string \<times> symbol_config) list"

text \<open>A number formatted with a fixed count of decimals, \<^verbatim>\<open>f"{x:.{p}f}"\<close>, kept as the
  pair of the unrounded number and the precision: the digits are not computed.\<close>

datatype fixed = Fixed real nat

text \<open>The keyword arguments of \<open>client.create_order\<close>, bot.py lines 114-121.\<close>

record order_request =
  r_symbol :: string
  r_side :: string
  r_type :: string
  r_quantity :: real
  r_price :: fixed
  r_timeInForce :: string

text \<open>The messages the bot writes, one constructor per format string of bot.py, holding
  the values the string interpolates.\<close>

datatype message =
    FailedFetchOrders string string
  | FailedFetchPrice string string
  | SkippedSellMin string real real
  | SkippedBuyMin string real real
  | SkippedBuyMax string real real
  | SkippedAdaptive string fixed fixed fixed real
  | FailedMovingAverage string exn
  | ReadyToPlace string string real fixed
  | OrderCancelled
  | OrderPlaced string string real fixed
  | FailedToPlace string
  | OrderExecuted string string real real
  | StatusLine string real nat real int
  | OrderLine string string fixed real
  | BlankLine

text \<open>What the bot does to the outside, in the order it does it: \<open>log_info\<close> and
  \<open>log_error\<close> (each prints and logs one message), \<open>print\<close>, the prompt of \<open>input\<close>,
  and the placement call with its arguments and the gateway's answer.\<close>

datatype event =
    LogInfo message
  | LogError message
  | Print message
  | Input string
  | CreateOrder order_request "unit api_result"

text \<open>The placement calls among a list of events.\<close>

fun placement_calls :: "event list \<Rightarrow> order_request list" where
  "placement_calls [] = []"
| "placement_calls (CreateOrder r a # evs) = r # placement_calls evs"
| "placement_calls (ev # evs) = placement_calls evs"

text \<open>The external collaborators, over a world \<open>'w\<close> they read and change: the four
  methods of the Binance client the source calls, the console's \<open>input\<close> (\<open>None\<close> when
  it raises \<open>EOFError\<close>, the line read otherwise), and the clock (\<open>time.time\<close>,
  truncated to an int as the source does).\<close>

record 'w client =
  client_get_klines :: "string \<Rightarrow> string \<Rightarrow> int \<Rightarrow> 'w \<Rightarrow> kline list api_result \<times> 'w"
  client_get_open_orders :: "string \<Rightarrow> 'w \<Rightarrow> open_order list api_result \<times> 'w"
  client_get_symbol_ticker :: "string \<Rightarrow> 'w \<Rightarrow> real api_result \<times> 'w"
  client_create_order :: "order_request \<Rightarrow> 'w \<Rightarrow> unit api_result \<times> 'w"
  builtin_input :: "'w \<Rightarrow> string option \<times> 'w"
  time_time :: "'w \<Rightarrow> int \<times> 'w"

text \<open>The state the bot runs in: the outside world, the rows of table \<open>orders\<close> in
  insertion order, and the events so far.\<close>

record 'w state =
  world :: 'w
  orders_db :: "Order list"
  trace :: "event list"

text \<open>A block of statements either executes \<open>return\<close> or falls through to the next
  statement with the local variables it bound.\<close>

datatype 'a flow = Return | Next 'a

section \<open>order\_storage.py\<close>

text \<open>\<^verbatim>\<open>session.query(Order).filter_by(order_id=i).first()\<close> is
  \<open>find (\<lambda>r. order_id r = i)\<close>; assigning \<open>order.status\<close> on the row found and
  committing is \<open>set_status\<close>, which rewrites the first row with that id.\<close>

fun set_status :: "int \<Rightarrow> string \<Rightarrow> Order list \<Rightarrow> Order list" where
  "set_status i st [] = []"
| "set_status i st (r # rs) =
     (if order_id r = i then r\<lparr>status := st\<rparr> # rs else r # set_status i st rs)"

text \<open>\<open>save_or_update_orders\<close>, lines 21-38. The query inside the loop sees the rows
  added earlier in the same call (the session flushes before it queries).\<close>

fun save_or_update_orders :: "'w client \<Rightarrow> open_order list \<Rightarrow> 'w state \<Rightarrow> 'w state" where
  "save_or_update_orders client [] s = s"
| "save_or_update_orders client (od # order_list) s =
     (case find (\<lambda>r. order_id r = o_orderId od) (orders_db s) of
        Some order \<Rightarrow>
          save_or_update_orders client order_list
            (s\<lparr>orders_db := set_status (o_orderId od) ''OPEN'' (orders_db s)\<rparr>)
      | None \<Rightarrow>
          (case time_time client (world s) of (now, w) \<Rightarrow>
             save_or_update_orders client order_list
               (s\<lparr>world := w,
                  orders_db := orders_db s @
                    [\<lparr>order_id = o_orderId od, symbol = o_symbol od, side = o_side od,
                      price = o_price od, volume = o_origQty od, status = ''OPEN'',
                      created_at = now\<rparr>]\<rparr>)))"

text \<open>\<open>get_filled_orders\<close>, lines 40-42: despite its name, the rows with status OPEN
  whose symbol is one of the given ones.\<close>

definition get_filled_orders :: "string list \<Rightarrow> 'w state \<Rightarrow> Order list" where
  "get_filled_orders active_symbols s =
     filter (\<lambda>r. status r = ''OPEN'' \<and> symbol r \<in> set active_symbols) (orders_db s)"

text \<open>\<open>mark_order_filled\<close>, lines 44-49.\<close>

definition mark_order_filled :: "int \<Rightarrow> 'w state \<Rightarrow> 'w state" where
  "mark_order_filled i s =
     (case find (\<lambda>r. order_id r = i) (orders_db s) of
        Some order \<Rightarrow> s\<lparr>orders_db := set_status i ''FILLED'' (orders_db s)\<rparr>
      | None \<Rightarrow> s)"

text \<open>The status the ledger holds for an order id: that of the row the primary-key
  query returns.\<close>

definition status_of :: "int \<Rightarrow> Order list \<Rightarrow> string option" where
  "status_of i db = map_option status (find (\<lambda>r. order_id r = i) db)"

text \<open>A run of the ledger's two mutators, in any order and with any live-order lists, and
  whether an operation lists a given order id among its live orders.\<close>

datatype ledger_op = Upsert "open_order list" | MarkFilled int

fun apply_op :: "'w client \<Rightarrow> ledger_op \<Rightarrow> 'w state \<Rightarrow> 'w state" where
  "apply_op client (Upsert order_list) s = save_or_update_orders client order_list s"
| "apply_op client (MarkFilled i) s = mark_order_filled i s"

fun run_ops :: "'w client \<Rightarrow> ledger_op list \<Rightarrow> 'w state \<Rightarrow> 'w state" where
  "run_ops client [] s = s"
| "run_ops client (ev # evs) s = run_ops client evs (apply_op client ev s)"

fun lists_id :: "int \<Rightarrow> ledger_op \<Rightarrow> bool" where
  "lists_id i (Upsert order_list) = (i \<in> set (map o_orderId order_list))"
| "lists_id i (MarkFilled j) = False"

section \<open>bot.py\<close>

text \<open>\<open>log_info\<close> and \<open>log_error\<close>, lines 18-24, and \<open>print\<close>.\<close>

definition log_info :: "message \<Rightarrow> 'w state \<Rightarrow> 'w state" where
  "log_info m s = s\<lparr>trace := trace s @ [LogInfo m]\<rparr>"

definition log_error :: "message \<Rightarrow> 'w state \<Rightarrow> 'w state" where
  "log_error m s = s\<lparr>trace := trace s @ [LogError m]\<rparr>"

definition py_print :: "message \<Rightarrow> 'w state \<Rightarrow> 'w state" where
  "py_print m s = s\<lparr>trace := trace s @ [Print m]\<rparr>"

text \<open>Python's \<open>sum\<close> adds from the left, starting at 0.\<close>

definition py_sum :: "real list \<Rightarrow> real" where
  "py_sum xs = foldl (+) 0 xs"

text \<open>\<open>str.strip\<close> and \<open>str.lower\<close> on ASCII text: the whitespace characters are
  tab, line feed, vertical tab, form feed, carriage return, the four separators 28-31 and
  the space.\<close>

definition py_isspace :: "char \<Rightarrow> bool" where
  "py_isspace c = (of_char c \<in> set [9, 10, 11, 12, 13, 28, 29, 30, 31, 32 :: nat])"

definition py_strip :: "string \<Rightarrow> string" where
  "py_strip t = rev (dropWhile py_isspace (rev (dropWhile py_isspace t)))"

definition py_lower :: "string \<Rightarrow> string" where
  "py_lower t =
     map (\<lambda>c. case map_of (zip ''ABCDEFGHIJKLMNOPQRSTUVWXYZ'' ''abcdefghijklmnopqrstuvwxyz'') c of
                 None \<Rightarrow> c
               | Some l \<Rightarrow> l) t"

text \<open>\<open>get_moving_average\<close>, lines 26-32. An exception of \<open>client.get_klines\<close>
  propagates; an empty candle list raises \<open>ValueError\<close>.\<close>

definition get_moving_average ::
  "'w client \<Rightarrow> string \<Rightarrow> int \<Rightarrow> 'w state \<Rightarrow> (exn + real) \<times> 'w state" where
  "get_moving_average client symb minutes s =
     (case client_get_klines client symb KLINE_INTERVAL_1MINUTE minutes (world s) of
        (Inl g, w) \<Rightarrow> (Inl (GatewayException g), s\<lparr>world := w\<rparr>)
      | (Inr klines, w) \<Rightarrow>
          if klines = [] then (Inl (ValueError (''No Kline data for '' @ symb)), s\<lparr>world := w\<rparr>)
          else
            (let close_prices = map k_close klines
             in (Inr (py_sum close_prices / real (length close_prices)), s\<lparr>world := w\<rparr>)))"

text \<open>\<open>get_open_orders\<close>, lines 41-46: a \<open>BinanceAPIException\<close> is logged and turned
  into the empty list; any other exception of the call propagates.\<close>

definition get_open_orders ::
  "'w client \<Rightarrow> string \<Rightarrow> 'w state \<Rightarrow> (exn + open_order list) \<times> 'w state" where
  "get_open_orders client symb s =
     (case client_get_open_orders client symb (world s) of
        (Inr orders, w) \<Rightarrow> (Inr orders, s\<lparr>world := w\<rparr>)
      | (Inl g, w) \<Rightarrow>
          (case g of
             BinanceAPIException m \<Rightarrow>
               (Inr [], log_error (FailedFetchOrders symb m) (s\<lparr>world := w\<rparr>))
           | _ \<Rightarrow> (Inl (GatewayException g), s\<lparr>world := w\<rparr>)))"

text \<open>\<open>get_current_price\<close>, lines 48-54: a \<open>BinanceAPIException\<close> is logged and turned
  into \<open>None\<close> (Python's \<open>None\<close>); any other exception of the call propagates.\<close>

definition get_current_price ::
  "'w client \<Rightarrow> string \<Rightarrow> 'w state \<Rightarrow> (exn + real option) \<times> 'w state" where
  "get_current_price client symb s =
     (case client_get_symbol_ticker client symb (world s) of
        (Inr p, w) \<Rightarrow> (Inr (Some p), s\<lparr>world := w\<rparr>)
      | (Inl g, w) \<Rightarrow>
          (case g of
             BinanceAPIException m \<Rightarrow>
               (Inr None, log_error (FailedFetchPrice symb m) (s\<lparr>world := w\<rparr>))
           | _ \<Rightarrow> (Inl (GatewayException g), s\<lparr>world := w\<rparr>)))"

text \<open>\<open>place_opposite_order\<close>, lines 91-102: the adaptive check inside the
  \<open>elif\<close> branch, run on the price that branch computed. It either returns from
  \<open>place_opposite_order\<close> (\<open>Return\<close>) or falls through (\<open>Next ()\<close>). The
  \<open>except Exception\<close> catches whatever \<open>get_moving_average\<close> raises.\<close>

definition adaptive_guard ::
  "'w client \<Rightarrow> string \<Rightarrow> symbol_config \<Rightarrow> real \<Rightarrow> 'w state \<Rightarrow> unit flow \<times> 'w state" where
  "adaptive_guard client symb symbol_config price' s =
     (let price_precision = (case price_precision symbol_config of None \<Rightarrow> 2 | Some p \<Rightarrow> p);
          adaptive_percent =
            (case adaptive_limit_percent symbol_config of None \<Rightarrow> 0 | Some a \<Rightarrow> a);
          ma_period =
            (case moving_average_period_min symbol_config of None \<Rightarrow> 0 | Some n \<Rightarrow> n)
      in
      if adaptive_percent > 0 \<and> ma_period > 0 then
        (case get_moving_average client symb ma_period s of
           (Inr moving_avg, s1) \<Rightarrow>
             (let adaptive_limit = moving_avg * (1 + adaptive_percent / 100)
              in
              if price' > adaptive_limit then
                (Return,
                 log_info
                   (SkippedAdaptive symb (Fixed price' price_precision)
                      (Fixed adaptive_limit price_precision)
                      (Fixed moving_avg price_precision) adaptive_percent) s1)
              else (Next (), s1))
         | (Inl e, s1) \<Rightarrow> (Return, log_error (FailedMovingAverage symb e) s1))
      else (Next (), s))"

text \<open>\<open>place_opposite_order\<close>, lines 56-124, in its two parts. The first part is
  lines 57-102: the locals, then the \<open>if\<close>/\<open>elif\<close> on the side. Each branch binds
  \<open>volume\<close>, \<open>price\<close> and \<open>side\<close> and then either returns from the function
  (\<open>Return\<close>) or falls through with the three bound (\<open>Next (Some (side, volume, price))\<close>).
  A side that is neither constant takes no branch and falls through with none of them
  bound (\<open>Next None\<close>).\<close>

definition opposite_order_terms ::
  "'w client \<Rightarrow> Order \<Rightarrow> settings \<Rightarrow> symbol_config \<Rightarrow> 'w state
     \<Rightarrow> (string \<times> real \<times> real) option flow \<times> 'w state" where
  "opposite_order_terms client original_order settings symbol_config s =
     (let order_side = side original_order;
          order_price = price original_order;
          symbol = symbol original_order;
          fee = fee_percent (global settings) / 100;
          profit = profit_percent symbol_config / 100;
          price_min = price_min symbol_config;
          price_max = price_max symbol_config
      in
      if order_side = SIDE_BUY then
        (let volume = volume_sell symbol_config;
             price = order_price + (order_price * profit) + ((order_price * volume) * fee);
             side = SIDE_SELL
         in
         if price < price_min then (Return, log_info (SkippedSellMin symbol price price_min) s)
         else (Next (Some (side, volume, price)), s))
      else if order_side = SIDE_SELL then
        (let volume = volume_buy symbol_config;
             price = order_price - (order_price * profit) - ((order_price * volume) * fee);
             side = SIDE_BUY
         in
         if price < price_min then (Return, log_info (SkippedBuyMin symbol price price_min) s)
         else if price > price_max then
           (Return, log_info (SkippedBuyMax symbol price price_max) s)
         else
           (case adaptive_guard client symbol symbol_config price s of
              (Return, s1) \<Rightarrow> (Return, s1)
            | (Next u, s1) \<Rightarrow> (Next (Some (side, volume, price)), s1)))
      else (Next None, s))"

text \<open>The second part is lines 104-124, entered with \<open>side\<close>, \<open>volume\<close> and \<open>price\<close>
  bound (the triple \<open>bound\<close>): the formatted price, the prompt when \<open>confirm\<close> holds,
  the placement call. An \<open>EOFError\<close> of \<open>input\<close> propagates. Of the exceptions of
  \<open>client.create_order\<close> only \<open>BinanceAPIException\<close> is caught and logged; any other
  propagates, with nothing logged.\<close>

definition submit_order ::
  "'w client \<Rightarrow> Order \<Rightarrow> settings \<Rightarrow> symbol_config \<Rightarrow> string \<times> real \<times> real \<Rightarrow> 'w state
     \<Rightarrow> (exn + unit) \<times> 'w state" where
  "submit_order client original_order settings symbol_config bound s =
     (let (side, volume, price) = bound;
          symbol = symbol original_order;
          confirm = (case confirm_order (global settings) of None \<Rightarrow> True | Some c \<Rightarrow> c);
          price_precision = (case price_precision symbol_config of None \<Rightarrow> 2 | Some p \<Rightarrow> p);
          price_str = Fixed price price_precision;
          s1 = log_info (ReadyToPlace side symbol volume price_str) s;
          request = \<lparr>r_symbol = symbol, r_side = side, r_type = ORDER_TYPE_LIMIT,
                     r_quantity = volume, r_price = price_str,
                     r_timeInForce = TIME_IN_FORCE_GTC\<rparr>;
          create = (\<lambda>s2.
            case client_create_order client request (world s2) of
              (Inr ack, w) \<Rightarrow>
                (Inr (),
                 log_info (OrderPlaced side symbol volume price_str)
                   (s2\<lparr>world := w, trace := trace s2 @ [CreateOrder request (Inr ack)]\<rparr>))
            | (Inl g, w) \<Rightarrow>
                (case g of
                   BinanceAPIException m \<Rightarrow>
                     (Inr (),
                      log_error (FailedToPlace m)
                        (s2\<lparr>world := w, trace := trace s2 @ [CreateOrder request (Inl g)]\<rparr>))
                 | _ \<Rightarrow>
                     (Inl (GatewayException g),
                      s2\<lparr>world := w, trace := trace s2 @ [CreateOrder request (Inl g)]\<rparr>)))
      in
      if confirm then
        (case builtin_input client (world s1) of (answer, w) \<Rightarrow>
           (let s2 = s1\<lparr>world := w, trace := trace s1 @ [Input ''Confirm order? [y/N]: '']\<rparr>
            in
            case answer of
              None \<Rightarrow> (Inl EOFError, s2)
            | Some line \<Rightarrow>
                (let user_input = py_lower (py_strip line)
                 in
                 if user_input \<noteq> ''y'' then (Inr (), py_print OrderCancelled s2)
                 else create s2)))
      else create s1)"

definition place_opposite_order ::
  "'w client \<Rightarrow> Order \<Rightarrow> settings \<Rightarrow> symbol_config \<Rightarrow> 'w state \<Rightarrow> (exn + unit) \<times> 'w state" where
  "place_opposite_order client original_order settings symbol_config s =
     (case opposite_order_terms client original_order settings symbol_config s of
        (Return, s1) \<Rightarrow> (Inr (), s1)
      | (Next None, s1) \<Rightarrow>
          (Inl (UnboundLocalError ''price''), s1)
      | (Next (Some bound), s1) \<Rightarrow>
          submit_order client original_order settings symbol_config bound s1)"

text \<open>Of \<open>main\<close>, lines 126-170, the body of the loop over the active symbols is
  modelled (lines 144-165): every property below is about one cycle for one symbol.
  Around it, \<open>main\<close> loads the settings, builds the client, and runs that body for each
  active symbol in an endless loop with \<open>clear_console\<close> before and \<open>time.sleep\<close>
  after each pass; the only exception it catches is \<open>KeyboardInterrupt\<close>.\<close>

text \<open>\<open>main\<close>, lines 151-155: the loop over the ledger's open rows of the symbol. A row
  whose id is not among the live ids is announced, handed to \<open>place_opposite_order\<close>
  and then marked FILLED. An exception of \<open>place_opposite_order\<close> leaves the loop (and
  \<open>main\<close>, which catches only \<open>KeyboardInterrupt\<close>) before the row is marked.\<close>

fun fill_loop ::
  "'w client \<Rightarrow> settings \<Rightarrow> symbol_config \<Rightarrow> string \<Rightarrow> int set \<Rightarrow> Order list \<Rightarrow> 'w state
     \<Rightarrow> (exn + unit) \<times> 'w state" where
  "fill_loop client settings cfg symb open_order_ids [] s = (Inr (), s)"
| "fill_loop client settings cfg symb open_order_ids (order # existing_orders) s =
     (if order_id order \<notin> open_order_ids then
        (case place_opposite_order client order settings cfg
                (log_info (OrderExecuted (side order) symb (volume order) (price order)) s) of
           (Inl e, s1) \<Rightarrow> (Inl e, s1)
         | (Inr u, s1) \<Rightarrow>
             fill_loop client settings cfg symb open_order_ids existing_orders
               (mark_order_filled (order_id order) s1))
      else fill_loop client settings cfg symb open_order_ids existing_orders s)"

text \<open>\<open>main\<close>, lines 160-164: one line per live open order.\<close>

fun print_open_orders :: "symbol_config \<Rightarrow> open_order list \<Rightarrow> 'w state \<Rightarrow> 'w state" where
  "print_open_orders cfg [] s = s"
| "print_open_orders cfg (order # open_orders) s =
     (let qty = o_origQty order;
          price = o_price order;
          precision = (case volume_precision cfg of None \<Rightarrow> 1 | Some p \<Rightarrow> p)
      in print_open_orders cfg open_orders
           (py_print (OrderLine (o_symbol order) (o_side order) (Fixed qty precision) price) s))"

text \<open>\<open>main\<close>, lines 144-165: the body of \<open>for symbol in active_symbols\<close>, with
  \<open>cfg = symbols_config[symbol]\<close>. Line 159 formats \<open>current_price\<close> with \<open>.4f\<close>;
  when it is \<open>None\<close> the format raises \<open>TypeError\<close>, which nothing catches. The
  time of lines 157-158 is read from the same clock as \<open>time.time\<close>. An exception that
  \<open>get_current_price\<close> or \<open>get_open_orders\<close> lets through ends the cycle at once.\<close>

definition symbol_cycle ::
  "'w client \<Rightarrow> settings \<Rightarrow> string \<Rightarrow> symbol_config \<Rightarrow> 'w state \<Rightarrow> (exn + unit) \<times> 'w state" where
  "symbol_cycle client settings symb cfg s =
     (case get_current_price client symb s of
        (Inl e, s1) \<Rightarrow> (Inl e, s1)
      | (Inr current_price, s1) \<Rightarrow>
     (case get_open_orders client symb s1 of
        (Inl e, s2) \<Rightarrow> (Inl e, s2)
      | (Inr open_orders, s2) \<Rightarrow>
        (let s3 = save_or_update_orders client open_orders s2;
             existing_orders = get_filled_orders [symb] s3;
             open_order_ids = set (map o_orderId open_orders)
         in
         case fill_loop client settings cfg symb open_order_ids existing_orders s3 of
           (Inl e, s4) \<Rightarrow> (Inl e, s4)
         | (Inr u, s4) \<Rightarrow>
             (case time_time client (world s4) of (current_time, w) \<Rightarrow>
                (case current_price of
                   None \<Rightarrow>
                     (Inl (TypeError ''unsupported format string passed to NoneType.__format__''),
                      s4\<lparr>world := w\<rparr>)
                 | Some p \<Rightarrow>
                     (Inr (),
                      py_print BlankLine
                        (print_open_orders cfg open_orders
                           (py_print
                              (StatusLine symb p (length open_orders) (profit_percent cfg)
                                 current_time)
                              (s4\<lparr>world := w\<rparr>)))))))))"

text \<open>The events a call adds to the trace.\<close>

definition new_events :: "'w state \<Rightarrow> 'w state \<Rightarrow> event list" where
  "new_events s s1 = drop (length (trace s)) (trace s1)"



section \<open>Example inputs\<close>

text \<open>Concrete settings, clients, orders and states at which the theorems below are
  evaluated. The world of the example clients is \<open>unit\<close>: they answer every call the
  same way.\<close>

definition example_settings :: settings where
  "example_settings =
     \<lparr>global = \<lparr>api_key = ''key'', api_sec = ''sec'', fee_percent = 1 / 10,
                 confirm_order = Some False, poll_interval_sec = None\<rparr>,
      symbols = []\<rparr>"

definition example_config :: symbol_config where
  "example_config =
     \<lparr>is_active = Some True, profit_percent = 1, volume_buy = 1, volume_sell = 2,
      price_min = 50, price_max = 150, price_precision = None, volume_precision = None,
      adaptive_limit_percent = None, moving_average_period_min = None\<rparr>"

definition example_client :: "unit client" where
  "example_client =
     \<lparr>client_get_klines = (\<lambda>symb interval limit w. (Inr [], w)),
      client_get_open_orders = (\<lambda>symb w. (Inr [], w)),
      client_get_symbol_ticker = (\<lambda>symb w. (Inr 100, w)),
      client_create_order = (\<lambda>request w. (Inr (), w)),
      builtin_input = (\<lambda>w. (Some ''y'', w)),
      time_time = (\<lambda>w. (0, w))\<rparr>"

definition order_at :: "string \<Rightarrow> real \<Rightarrow> Order" where
  "order_at sd pr =
     \<lparr>order_id = 7, symbol = ''BTCUSDT'', side = sd, price = pr, volume = 1,
      status = ''OPEN'', created_at = 0\<rparr>"

definition no_fee_settings :: settings where
  "no_fee_settings =
     \<lparr>global = \<lparr>api_key = ''key'', api_sec = ''sec'', fee_percent = 0,
                 confirm_order = Some False, poll_interval_sec = None\<rparr>,
      symbols = []\<rparr>"

definition adaptive_config :: symbol_config where
  "adaptive_config =
     \<lparr>is_active = Some True, profit_percent = 0, volume_buy = 1, volume_sell = 2,
      price_min = 50, price_max = 150, price_precision = None, volume_precision = None,
      adaptive_limit_percent = Some 2, moving_average_period_min = Some 3\<rparr>"

definition candle :: "real \<Rightarrow> kline" where
  "candle c = \<lparr>k_open_time = 0, k_open = c, k_high = c, k_low = c, k_close = c, k_volume = 1\<rparr>"

definition candles_client :: "unit client" where
  "candles_client =
     example_client\<lparr>client_get_klines :=
       (\<lambda>symb interval limit w. (Inr [candle 99, candle 100, candle 101], w))\<rparr>"

definition empty_state :: "unit state" where
  "empty_state = \<lparr>world = (), orders_db = [], trace = []\<rparr>"

definition live :: "int \<Rightarrow> open_order" where
  "live i =
     \<lparr>o_orderId = i, o_symbol = ''BTCUSDT'', o_side = ''BUY'', o_price = 100, o_origQty = 1\<rparr>"

definition rejecting_client :: "unit client" where
  "rejecting_client =
     example_client\<lparr>client_create_order :=
       (\<lambda>request w. (Inl (BinanceAPIException ''Account has insufficient balance''), w))\<rparr>"

definition no_price_client :: "unit client" where
  "no_price_client =
     example_client\<lparr>client_get_symbol_ticker := (\<lambda>symb w. (Inl (BinanceAPIException ''Too many requests''), w))\<rparr>"

definition no_orders_client :: "unit client" where
  "no_orders_client =
     example_client\<lparr>client_get_open_orders := (\<lambda>symb w. (Inl (BinanceAPIException ''Too many requests''), w))\<rparr>"

definition ledger_state :: "Order list \<Rightarrow> unit state" where
  "ledger_state db = \<lparr>world = (), orders_db = db, trace = []\<rparr>"

definition dropping_client :: "unit client" where
  "dropping_client =
     example_client\<lparr>client_create_order :=
       (\<lambda>request w. (Inl (RequestException ''Connection aborted''), w))\<rparr>"

definition relisting_client :: "unit client" where
  "relisting_client =
     example_client\<lparr>client_get_open_orders := (\<lambda>symb w. (Inr [live 7], w))\<rparr>"

definition asking_settings :: settings where
  "asking_settings =
     example_settings\<lparr>global := (global example_settings)\<lparr>confirm_order := None\<rparr>\<rparr>"

definition answering_client :: "string \<Rightarrow> unit client" where
  "answering_client line = example_client\<lparr>builtin_input := (\<lambda>w. (Some line, w))\<rparr>"

lemmas example_defs =
  example_settings_def example_config_def example_client_def order_at_def empty_state_def
  no_fee_settings_def adaptive_config_def candle_def candles_client_def live_def
  rejecting_client_def no_price_client_def no_orders_client_def ledger_state_def
  relisting_client_def asking_settings_def answering_client_def dropping_client_def
  SIDE_BUY_def SIDE_SELL_def ORDER_TYPE_LIMIT_def TIME_IN_FORCE_GTC_def
  KLINE_INTERVAL_1MINUTE_def log_info_def log_error_def py_print_def Let_def

lemmas engine_defs =
  place_opposite_order_def opposite_order_terms_def submit_order_def adaptive_guard_def
  get_moving_average_def py_sum_def py_strip_def py_lower_def py_isspace_def

lemmas cycle_defs =
  symbol_cycle_def get_current_price_def get_open_orders_def get_filled_orders_def
  mark_order_filled_def status_of_def new_events_def

section \<open>The pricing engine\<close>

subsection \<open>The two parts of \<open>place_opposite_order\<close>\<close>

text \<open>The first part on a BUY fill and on a SELL fill, with the price written as the
  source computes it, and on any other side.\<close>

lemma opposite_order_terms_buy:
  assumes "side original_order = SIDE_BUY"
    and "price original_order + price original_order * (profit_percent symbol_config / 100)
          + price original_order * volume_sell symbol_config
            * (fee_percent (global settings) / 100) = p"
  shows "opposite_order_terms client original_order settings symbol_config s =
              (if p < price_min symbol_config
               then (Return,
                     log_info (SkippedSellMin (symbol original_order) p (price_min symbol_config)) s)
               else (Next (Some (SIDE_SELL, volume_sell symbol_config, p)), s))"
  unfolding opposite_order_terms_def Let_def assms by simp

lemma opposite_order_terms_sell:
  assumes "side original_order = SIDE_SELL"
    and "price original_order - price original_order * (profit_percent symbol_config / 100)
          - price original_order * volume_buy symbol_config
            * (fee_percent (global settings) / 100) = p"
  shows "opposite_order_terms client original_order settings symbol_config s =
           (if p < price_min symbol_config
            then (Return,
                  log_info (SkippedBuyMin (symbol original_order) p (price_min symbol_config)) s)
            else if p > price_max symbol_config
            then (Return,
                  log_info (SkippedBuyMax (symbol original_order) p (price_max symbol_config)) s)
            else (case adaptive_guard client (symbol original_order) symbol_config p s of
                    (Return, s1) \<Rightarrow> (Return, s1)
                  | (Next u, s1) \<Rightarrow> (Next (Some (SIDE_BUY, volume_buy symbol_config, p)), s1)))"
  unfolding opposite_order_terms_def Let_def assms by (simp add: SIDE_BUY_def SIDE_SELL_def)

lemma opposite_order_terms_other:
  assumes "side original_order \<noteq> SIDE_BUY" and "side original_order \<noteq> SIDE_SELL"
  shows "opposite_order_terms client original_order settings symbol_config s = (Next None, s)"
  using assms by (simp add: opposite_order_terms_def Let_def)

text \<open>The second part raises only what \<open>input\<close> or the placement call raised, leaves
  the ledger alone and starts by logging the order it is about to place.\<close>

lemma submit_order_raises:
  assumes "fst (submit_order client original_order settings symbol_config bound s) = Inl e"
  shows "e = EOFError \<or> (\<exists>g. e = GatewayException g \<and> (\<forall>m. g \<noteq> BinanceAPIException m))"
  using assms
  by (cases bound)
    (auto simp: submit_order_def Let_def
      split: prod.splits sum.splits option.splits gateway_exception.splits if_splits)

lemma submit_order_db:
  "orders_db (snd (submit_order client original_order settings symbol_config bound s)) = orders_db s"
  by (cases bound)
    (simp add: submit_order_def Let_def log_info_def log_error_def py_print_def
      split: prod.splits sum.splits option.splits gateway_exception.splits)

lemma submit_order_trace:
  "\<exists>evs. trace (snd (submit_order client original_order settings symbol_config (sd, v, p) s)) =
     trace s @
     LogInfo (ReadyToPlace sd (symbol original_order) v
        (Fixed p (case price_precision symbol_config of None \<Rightarrow> 2 | Some n \<Rightarrow> n))) # evs"
  by (simp add: submit_order_def Let_def log_info_def log_error_def py_print_def
      split: prod.splits sum.splits option.splits gateway_exception.splits)

lemma placement_calls_append: "placement_calls (xs @ ys) = placement_calls xs @ placement_calls ys"
  by (induction xs rule: placement_calls.induct) simp_all

lemma submit_order_not_skip:
  "submit_order client original_order settings symbol_config (sd, v, p) s \<noteq>
     (r, s\<lparr>trace := trace s @ [LogInfo (SkippedSellMin a b c)]\<rparr>)"
proof
  assume eq: "submit_order client original_order settings symbol_config (sd, v, p) s =
     (r, s\<lparr>trace := trace s @ [LogInfo (SkippedSellMin a b c)]\<rparr>)"
  obtain evs where
    "trace (snd (submit_order client original_order settings symbol_config (sd, v, p) s)) =
     trace s @
     LogInfo (ReadyToPlace sd (symbol original_order) v
        (Fixed p (case price_precision symbol_config of None \<Rightarrow> 2 | Some n \<Rightarrow> n))) # evs"
    using submit_order_trace by blast
  with eq show False by simp
qed

text \<open>The prompt, with \<open>confirm_order\<close> left at its default: an answer that strips and
  lowers to \<open>y\<close> places the order, any other answer cancels it, and the end of the
  input raises.\<close>

lemma confirmation_examples:
  "place_opposite_order (answering_client '' Y '') (order_at ''BUY'' 100) asking_settings
       example_config empty_state
     = (Inr (), empty_state\<lparr>trace :=
          [LogInfo (ReadyToPlace ''SELL'' ''BTCUSDT'' 2 (Fixed 101.2 2)),
           Input ''Confirm order? [y/N]: '',
           CreateOrder \<lparr>r_symbol = ''BTCUSDT'', r_side = ''SELL'', r_type = ''LIMIT'',
                        r_quantity = 2, r_price = Fixed 101.2 2, r_timeInForce = ''GTC''\<rparr>
             (Inr ()),
           LogInfo (OrderPlaced ''SELL'' ''BTCUSDT'' 2 (Fixed 101.2 2))]\<rparr>)"
  "place_opposite_order (answering_client ''yes'') (order_at ''BUY'' 100) asking_settings
       example_config empty_state
     = (Inr (), empty_state\<lparr>trace :=
          [LogInfo (ReadyToPlace ''SELL'' ''BTCUSDT'' 2 (Fixed 101.2 2)),
           Input ''Confirm order? [y/N]: '',
           Print OrderCancelled]\<rparr>)"
  "place_opposite_order (example_client\<lparr>builtin_input := (\<lambda>w. (None, w))\<rparr>)
       (order_at ''BUY'' 100) asking_settings example_config empty_state
     = (Inl EOFError, empty_state\<lparr>trace :=
          [LogInfo (ReadyToPlace ''SELL'' ''BTCUSDT'' 2 (Fixed 101.2 2)),
           Input ''Confirm order? [y/N]: '']\<rparr>)"
  by (simp_all add: example_defs engine_defs)

text \<open>The adaptive check and \<open>get_moving_average\<close> leave the ledger alone and place
  nothing.\<close>

lemma get_moving_average_frame:
  "orders_db (snd (get_moving_average client symb n s)) = orders_db s \<and>
   trace (snd (get_moving_average client symb n s)) = trace s"
  by (simp add: get_moving_average_def Let_def split: prod.splits sum.splits)

lemma adaptive_guard_db:
  "orders_db (snd (adaptive_guard client symb symbol_config p s)) = orders_db s"
  by (simp add: adaptive_guard_def get_moving_average_def Let_def log_info_def log_error_def
      split: prod.splits sum.splits)

lemma adaptive_guard_calls:
  "placement_calls (trace (snd (adaptive_guard client symb symbol_config p s))) =
     placement_calls (trace s)"
  by (simp add: adaptive_guard_def get_moving_average_def Let_def log_info_def log_error_def
      placement_calls_append split: prod.splits sum.splits)

lemma adaptive_guard_frame:
  assumes "adaptive_guard client symb symbol_config p s = (r, s1)"
  shows "orders_db s1 = orders_db s \<and> placement_calls (trace s1) = placement_calls (trace s)"
  using adaptive_guard_db [of client symb symbol_config p s]
    adaptive_guard_calls [of client symb symbol_config p s] assms
  by simp

lemma place_opposite_order_buy_independent:
  assumes "side original_order = SIDE_BUY"
  shows "place_opposite_order (client\<lparr>client_get_klines := g\<rparr>) original_order settings
           (symbol_config\<lparr>adaptive_limit_percent := x, moving_average_period_min := y\<rparr>) s =
         place_opposite_order client original_order settings symbol_config s"
  using assms
  by (simp add: place_opposite_order_def opposite_order_terms_def submit_order_def Let_def)

subsection \<open>Counter side, volume and price\<close>

text \<open>
  Claim C1. For a filled order with side BUY the engine binds the counter side SELL, the
  volume \<open>volume_sell\<close> and the price
  \<open>filled_price * (1 + profit_percent/100) + filled_price * volume_sell * (fee_percent/100)\<close>:
  it skips with that price in the log line when the price is below \<open>price_min\<close>, and
  otherwise goes on to the placement part with exactly these three values. The witness is
  the spec's example: filled price 100, profit 1, fee 0.1, volume\_sell 2 give 101.2, and
  the order placed is SELL 2 at 101.2.
\<close>

theorem buy_fill_counter_order:
  assumes "side original_order = SIDE_BUY"
    and "p = price original_order * (1 + profit_percent symbol_config / 100)
               + price original_order * volume_sell symbol_config
                 * (fee_percent (global settings) / 100)"
  shows "opposite_order_terms client original_order settings symbol_config s =
              (if p < price_min symbol_config
               then (Return,
                     log_info (SkippedSellMin (symbol original_order) p (price_min symbol_config)) s)
               else (Next (Some (SIDE_SELL, volume_sell symbol_config, p)), s))
            \<and> place_opposite_order client original_order settings symbol_config s =
              (if p < price_min symbol_config
               then (Inr (),
                     log_info (SkippedSellMin (symbol original_order) p (price_min symbol_config)) s)
               else submit_order client original_order settings symbol_config
                      (SIDE_SELL, volume_sell symbol_config, p) s)"
proof -
  have eq: "price original_order + price original_order * (profit_percent symbol_config / 100)
          + price original_order * volume_sell symbol_config
            * (fee_percent (global settings) / 100) = p"
    by (simp add: assms(2) algebra_simps)
  have terms: "opposite_order_terms client original_order settings symbol_config s =
              (if p < price_min symbol_config
               then (Return,
                     log_info (SkippedSellMin (symbol original_order) p (price_min symbol_config)) s)
               else (Next (Some (SIDE_SELL, volume_sell symbol_config, p)), s))"
    by (rule opposite_order_terms_buy [OF assms(1) eq])
  then show ?thesis
    by (simp add: place_opposite_order_def)
qed

theorem buy_fill_counter_order_witness:
  "side (order_at ''BUY'' 100) = SIDE_BUY \<and>
   opposite_order_terms example_client (order_at ''BUY'' 100) example_settings example_config
       empty_state
     = (Next (Some (''SELL'', 2, 101.2)), empty_state) \<and>
   place_opposite_order example_client (order_at ''BUY'' 100) example_settings example_config
       empty_state
     = (Inr (), empty_state\<lparr>trace :=
          [LogInfo (ReadyToPlace ''SELL'' ''BTCUSDT'' 2 (Fixed 101.2 2)),
           CreateOrder \<lparr>r_symbol = ''BTCUSDT'', r_side = ''SELL'', r_type = ''LIMIT'',
                        r_quantity = 2, r_price = Fixed 101.2 2, r_timeInForce = ''GTC''\<rparr> (Inr ()),
           LogInfo (OrderPlaced ''SELL'' ''BTCUSDT'' 2 (Fixed 101.2 2))]\<rparr>)"
  using buy_fill_counter_order [of "order_at ''BUY'' 100" "101.2" example_config example_settings
      example_client empty_state]
  by (simp add: example_defs submit_order_def)

text \<open>
  Claim C2. For a filled order with side SELL the engine binds the counter side BUY, the
  volume \<open>volume_buy\<close> and the price
  \<open>filled_price * (1 - profit_percent/100) - filled_price * volume_buy * (fee_percent/100)\<close>:
  it skips with that price in the log line when the price is outside the bounds, and
  whenever it goes on to the placement part it does so with exactly these three values.
  The witness is the spec's example: filled price 100, profit 1, fee 0.1, volume\_buy 1
  give 98.9, and the order placed is BUY 1 at 98.9.
\<close>

theorem sell_fill_counter_order:
  assumes "side original_order = SIDE_SELL"
    and "p = price original_order * (1 - profit_percent symbol_config / 100)
               - price original_order * volume_buy symbol_config
                 * (fee_percent (global settings) / 100)"
  shows "opposite_order_terms client original_order settings symbol_config s =
           (if p < price_min symbol_config
            then (Return,
                  log_info (SkippedBuyMin (symbol original_order) p (price_min symbol_config)) s)
            else if p > price_max symbol_config
            then (Return,
                  log_info (SkippedBuyMax (symbol original_order) p (price_max symbol_config)) s)
            else (case adaptive_guard client (symbol original_order) symbol_config p s of
                    (Return, s1) \<Rightarrow> (Return, s1)
                  | (Next u, s1) \<Rightarrow> (Next (Some (SIDE_BUY, volume_buy symbol_config, p)), s1)))
         \<and> place_opposite_order client original_order settings symbol_config s =
           (if p < price_min symbol_config
            then (Inr (),
                  log_info (SkippedBuyMin (symbol original_order) p (price_min symbol_config)) s)
            else if p > price_max symbol_config
            then (Inr (),
                  log_info (SkippedBuyMax (symbol original_order) p (price_max symbol_config)) s)
            else (case adaptive_guard client (symbol original_order) symbol_config p s of
                    (Return, s1) \<Rightarrow> (Inr (), s1)
                  | (Next u, s1) \<Rightarrow>
                      submit_order client original_order settings symbol_config
                        (SIDE_BUY, volume_buy symbol_config, p) s1))"
proof -
  have eq: "price original_order - price original_order * (profit_percent symbol_config / 100)
          - price original_order * volume_buy symbol_config
            * (fee_percent (global settings) / 100) = p"
    by (simp add: assms(2) algebra_simps)
  show ?thesis
    unfolding place_opposite_order_def opposite_order_terms_sell [OF assms(1) eq]
    by (simp split: prod.splits flow.splits)
qed

theorem sell_fill_counter_order_witness:
  "side (order_at ''SELL'' 100) = SIDE_SELL \<and>
   opposite_order_terms example_client (order_at ''SELL'' 100) example_settings example_config
       empty_state
     = (Next (Some (''BUY'', 1, 98.9)), empty_state) \<and>
   place_opposite_order example_client (order_at ''SELL'' 100) example_settings example_config
       empty_state
     = (Inr (), empty_state\<lparr>trace :=
          [LogInfo (ReadyToPlace ''BUY'' ''BTCUSDT'' 1 (Fixed 98.9 2)),
           CreateOrder \<lparr>r_symbol = ''BTCUSDT'', r_side = ''BUY'', r_type = ''LIMIT'',
                        r_quantity = 1, r_price = Fixed 98.9 2, r_timeInForce = ''GTC''\<rparr> (Inr ()),
           LogInfo (OrderPlaced ''BUY'' ''BTCUSDT'' 1 (Fixed 98.9 2))]\<rparr>)"
  using sell_fill_counter_order [of "order_at ''SELL'' 100" "98.9" example_config example_settings
      example_client empty_state]
  by (simp add: example_defs submit_order_def adaptive_guard_def)

subsection \<open>The guards\<close>

text \<open>
  Claim C6. The price-bounds guard compares the unrounded computed price. On a BUY fill
  (a SELL counter-order) the call ends with the one log line of the lower-bound skip, and
  no placement call, exactly when the price is below \<open>price_min\<close>; otherwise the
  placement part is entered, whatever \<open>price_max\<close> is. On a SELL fill (a BUY
  counter-order) the call ends with the one log line of the skip, and no placement call,
  when the price is below \<open>price_min\<close>, and when it is not but is above \<open>price_max\<close>.
\<close>

theorem price_bounds_guard:
  assumes "p_sell = price original_order + price original_order * (profit_percent symbol_config / 100)
             + price original_order * volume_sell symbol_config
               * (fee_percent (global settings) / 100)"
    and "p_buy = price original_order - price original_order * (profit_percent symbol_config / 100)
             - price original_order * volume_buy symbol_config
               * (fee_percent (global settings) / 100)"
  shows "(side original_order = SIDE_BUY \<longrightarrow>
            (place_opposite_order client original_order settings symbol_config s =
               (Inr (), s\<lparr>trace := trace s @
                  [LogInfo (SkippedSellMin (symbol original_order) p_sell
                     (price_min symbol_config))]\<rparr>))
             = (p_sell < price_min symbol_config)
          \<and> (\<not> p_sell < price_min symbol_config \<longrightarrow>
               place_opposite_order client original_order settings symbol_config s =
                 submit_order client original_order settings symbol_config
                   (SIDE_SELL, volume_sell symbol_config, p_sell) s))
       \<and> (side original_order = SIDE_SELL \<longrightarrow>
            (p_buy < price_min symbol_config \<longrightarrow>
               place_opposite_order client original_order settings symbol_config s =
                 (Inr (), s\<lparr>trace := trace s @
                    [LogInfo (SkippedBuyMin (symbol original_order) p_buy
                       (price_min symbol_config))]\<rparr>))
          \<and> (\<not> p_buy < price_min symbol_config \<and> p_buy > price_max symbol_config \<longrightarrow>
               place_opposite_order client original_order settings symbol_config s =
                 (Inr (), s\<lparr>trace := trace s @
                    [LogInfo (SkippedBuyMax (symbol original_order) p_buy
                       (price_max symbol_config))]\<rparr>)))"
proof (intro conjI impI)
  assume buy: "side original_order = SIDE_BUY"
  have terms: "opposite_order_terms client original_order settings symbol_config s =
              (if p_sell < price_min symbol_config
               then (Return,
                     log_info (SkippedSellMin (symbol original_order) p_sell (price_min symbol_config)) s)
               else (Next (Some (SIDE_SELL, volume_sell symbol_config, p_sell)), s))"
    by (rule opposite_order_terms_buy [OF buy assms(1) [symmetric]])
  show "(place_opposite_order client original_order settings symbol_config s =
               (Inr (), s\<lparr>trace := trace s @
                  [LogInfo (SkippedSellMin (symbol original_order) p_sell
                     (price_min symbol_config))]\<rparr>))
             = (p_sell < price_min symbol_config)"
    by (simp add: place_opposite_order_def terms log_info_def submit_order_not_skip)
  show "place_opposite_order client original_order settings symbol_config s =
                 submit_order client original_order settings symbol_config
                   (SIDE_SELL, volume_sell symbol_config, p_sell) s"
    if "\<not> p_sell < price_min symbol_config"
    using that by (simp add: place_opposite_order_def terms)
next
  assume sell: "side original_order = SIDE_SELL"
  note terms = opposite_order_terms_sell [OF sell assms(2) [symmetric]]
  show "place_opposite_order client original_order settings symbol_config s =
                 (Inr (), s\<lparr>trace := trace s @
                    [LogInfo (SkippedBuyMin (symbol original_order) p_buy
                       (price_min symbol_config))]\<rparr>)"
    if "p_buy < price_min symbol_config"
    using that by (simp add: place_opposite_order_def terms log_info_def)
  show "place_opposite_order client original_order settings symbol_config s =
                 (Inr (), s\<lparr>trace := trace s @
                    [LogInfo (SkippedBuyMax (symbol original_order) p_buy
                       (price_max symbol_config))]\<rparr>)"
    if "\<not> p_buy < price_min symbol_config \<and> p_buy > price_max symbol_config"
    using that by (simp add: place_opposite_order_def terms log_info_def)
qed

theorem price_bounds_guard_witness:
  "place_opposite_order example_client (order_at ''BUY'' 10) example_settings example_config
       empty_state
     = (Inr (), empty_state\<lparr>trace := [LogInfo (SkippedSellMin ''BTCUSDT'' 10.12 50)]\<rparr>) \<and>
   place_opposite_order example_client (order_at ''BUY'' 200) example_settings example_config
       empty_state
     = (Inr (), empty_state\<lparr>trace :=
          [LogInfo (ReadyToPlace ''SELL'' ''BTCUSDT'' 2 (Fixed 202.4 2)),
           CreateOrder \<lparr>r_symbol = ''BTCUSDT'', r_side = ''SELL'', r_type = ''LIMIT'',
                        r_quantity = 2, r_price = Fixed 202.4 2, r_timeInForce = ''GTC''\<rparr> (Inr ()),
           LogInfo (OrderPlaced ''SELL'' ''BTCUSDT'' 2 (Fixed 202.4 2))]\<rparr>) \<and>
   place_opposite_order example_client (order_at ''SELL'' 10) example_settings example_config
       empty_state
     = (Inr (), empty_state\<lparr>trace := [LogInfo (SkippedBuyMin ''BTCUSDT'' 9.89 50)]\<rparr>) \<and>
   place_opposite_order example_client (order_at ''SELL'' 200) example_settings example_config
       empty_state
     = (Inr (), empty_state\<lparr>trace := [LogInfo (SkippedBuyMax ''BTCUSDT'' 197.8 150)]\<rparr>)"
  using
    price_bounds_guard [of "10.12" "order_at ''BUY'' 10" example_config example_settings "9.89"
      example_client empty_state]
    price_bounds_guard [of "202.4" "order_at ''BUY'' 200" example_config example_settings "197.8"
      example_client empty_state]
    price_bounds_guard [of "10.12" "order_at ''SELL'' 10" example_config example_settings "9.89"
      example_client empty_state]
    price_bounds_guard [of "202.4" "order_at ''SELL'' 200" example_config example_settings "197.8"
      example_client empty_state]
  by (simp add: example_defs submit_order_def)

text \<open>
  Claim C5. On a SELL fill whose price passed the bounds, with \<open>adaptive_limit_percent\<close>
  and \<open>moving_average_period_min\<close> both positive, the engine asks for the moving
  average over \<open>moving_average_period_min\<close> candles. If the fetch fails, the call logs
  the error and returns without placing. Otherwise the limit is
  \<open>moving_average * (1 + adaptive_limit_percent/100)\<close>; a price above it ends the call
  with one log line holding the price, the limit and the moving average, and without a
  placement; a price not above it enters the placement part. On a BUY fill the call does
  not depend on the candles or on the two adaptive settings. The first part of the
  witness is the spec's example: moving average 100, 2 percent, price 103.
\<close>

theorem adaptive_guard_sell_fills:
  assumes "p = price original_order * (1 - profit_percent symbol_config / 100)
               - price original_order * volume_buy symbol_config
                 * (fee_percent (global settings) / 100)"
    and "prec = (case price_precision symbol_config of None \<Rightarrow> 2 | Some k \<Rightarrow> k)"
  shows "(side original_order = SIDE_SELL \<and>
          \<not> p < price_min symbol_config \<and> \<not> p > price_max symbol_config \<and>
          adaptive_limit_percent symbol_config = Some a \<and> a > 0 \<and>
          moving_average_period_min symbol_config = Some n \<and> n > 0 \<longrightarrow>
            (case get_moving_average client (symbol original_order) n s of
               (Inr moving_avg, s1) \<Rightarrow>
                 place_opposite_order client original_order settings symbol_config s =
                   (if p > moving_avg * (1 + a / 100)
                    then (Inr (), s1\<lparr>trace := trace s1 @
                            [LogInfo (SkippedAdaptive (symbol original_order) (Fixed p prec)
                               (Fixed (moving_avg * (1 + a / 100)) prec)
                               (Fixed moving_avg prec) a)]\<rparr>)
                    else submit_order client original_order settings symbol_config
                           (SIDE_BUY, volume_buy symbol_config, p) s1)
             | (Inl e, s1) \<Rightarrow>
                 place_opposite_order client original_order settings symbol_config s =
                   (Inr (), s1\<lparr>trace := trace s1 @
                      [LogError (FailedMovingAverage (symbol original_order) e)]\<rparr>)))
       \<and> (side original_order = SIDE_BUY \<longrightarrow>
            place_opposite_order (client\<lparr>client_get_klines := g\<rparr>) original_order settings
              (symbol_config\<lparr>adaptive_limit_percent := x, moving_average_period_min := y\<rparr>) s =
            place_opposite_order client original_order settings symbol_config s)"
proof (intro conjI impI)
  assume h: "side original_order = SIDE_SELL \<and>
          \<not> p < price_min symbol_config \<and> \<not> p > price_max symbol_config \<and>
          adaptive_limit_percent symbol_config = Some a \<and> a > 0 \<and>
          moving_average_period_min symbol_config = Some n \<and> n > 0"
  have eq: "price original_order - price original_order * (profit_percent symbol_config / 100)
          - price original_order * volume_buy symbol_config
            * (fee_percent (global settings) / 100) = p"
    by (simp add: assms(1) algebra_simps)
  from h have sell: "side original_order = SIDE_SELL" by simp
  note terms = opposite_order_terms_sell [OF sell eq]
  from h show "case get_moving_average client (symbol original_order) n s of
               (Inr moving_avg, s1) \<Rightarrow>
                 place_opposite_order client original_order settings symbol_config s =
                   (if p > moving_avg * (1 + a / 100)
                    then (Inr (), s1\<lparr>trace := trace s1 @
                            [LogInfo (SkippedAdaptive (symbol original_order) (Fixed p prec)
                               (Fixed (moving_avg * (1 + a / 100)) prec)
                               (Fixed moving_avg prec) a)]\<rparr>)
                    else submit_order client original_order settings symbol_config
                           (SIDE_BUY, volume_buy symbol_config, p) s1)
             | (Inl e, s1) \<Rightarrow>
                 place_opposite_order client original_order settings symbol_config s =
                   (Inr (), s1\<lparr>trace := trace s1 @
                      [LogError (FailedMovingAverage (symbol original_order) e)]\<rparr>)"
    by (simp add: place_opposite_order_def terms adaptive_guard_def Let_def log_info_def
        log_error_def assms(2) split: prod.splits sum.splits)
next
  assume "side original_order = SIDE_BUY"
  then show "place_opposite_order (client\<lparr>client_get_klines := g\<rparr>) original_order settings
              (symbol_config\<lparr>adaptive_limit_percent := x, moving_average_period_min := y\<rparr>) s =
            place_opposite_order client original_order settings symbol_config s"
    by (rule place_opposite_order_buy_independent)
qed

theorem adaptive_guard_sell_fills_witness:
  "place_opposite_order candles_client (order_at ''SELL'' 103) no_fee_settings adaptive_config
       empty_state
     = (Inr (), empty_state\<lparr>trace :=
          [LogInfo (SkippedAdaptive ''BTCUSDT'' (Fixed 103 2) (Fixed 102 2) (Fixed 100 2) 2)]\<rparr>) \<and>
   place_opposite_order example_client (order_at ''SELL'' 103) no_fee_settings adaptive_config
       empty_state
     = (Inr (), empty_state\<lparr>trace :=
          [LogError (FailedMovingAverage ''BTCUSDT''
             (ValueError ''No Kline data for BTCUSDT''))]\<rparr>) \<and>
   place_opposite_order candles_client (order_at ''BUY'' 103) no_fee_settings adaptive_config
       empty_state
     = place_opposite_order example_client (order_at ''BUY'' 103) no_fee_settings
         (adaptive_config\<lparr>adaptive_limit_percent := None, moving_average_period_min := None\<rparr>)
         empty_state"
  using
    adaptive_guard_sell_fills [where p = 103 and original_order = "order_at ''SELL'' 103"
      and symbol_config = adaptive_config and settings = no_fee_settings and prec = 2
      and a = 2 and n = 3 and client = candles_client and s = empty_state]
    adaptive_guard_sell_fills [where p = 103 and original_order = "order_at ''SELL'' 103"
      and symbol_config = adaptive_config and settings = no_fee_settings and prec = 2
      and a = 2 and n = 3 and client = example_client and s = empty_state]
    adaptive_guard_sell_fills [where p = 103 and original_order = "order_at ''BUY'' 103"
      and symbol_config = "adaptive_config\<lparr>adaptive_limit_percent := None, moving_average_period_min := None\<rparr>"
      and settings = no_fee_settings and prec = 2
      and client = example_client and s = empty_state
      and g = "\<lambda>symb interval limit w. (Inr [candle 99, candle 100, candle 101], w)"
      and x = "Some 2" and y = "Some 3"]
  by (simp add: example_defs get_moving_average_def py_sum_def)

subsection \<open>The side precondition\<close>

text \<open>
  Claim C10. When the side of the filled order is BUY or SELL, the first part of
  \<open>place_opposite_order\<close> either returns (the ledger is as before and no placement call
  was made) or reaches the placement part with side, volume and price all bound, and an
  exception of the call, if any, is one that \<open>input\<close> or the placement call raised. For
  any other side the first part falls through with none of them bound, and formatting
  the price raises \<open>UnboundLocalError\<close>.
\<close>

theorem side_precondition:
  "(side original_order = SIDE_BUY \<or> side original_order = SIDE_SELL \<longrightarrow>
      (\<forall>e. fst (place_opposite_order client original_order settings symbol_config s) = Inl e \<longrightarrow>
         e = EOFError \<or> (\<exists>g. e = GatewayException g \<and> (\<forall>m. g \<noteq> BinanceAPIException m))) \<and>
      (case opposite_order_terms client original_order settings symbol_config s of
         (Return, s1) \<Rightarrow>
           place_opposite_order client original_order settings symbol_config s = (Inr (), s1) \<and>
           orders_db s1 = orders_db s \<and>
           placement_calls (trace s1) = placement_calls (trace s)
       | (Next b, s1) \<Rightarrow>
           (\<exists>sd v p. b = Some (sd, v, p) \<and>
              place_opposite_order client original_order settings symbol_config s =
                submit_order client original_order settings symbol_config (sd, v, p) s1)))
   \<and> (side original_order \<noteq> SIDE_BUY \<and> side original_order \<noteq> SIDE_SELL \<longrightarrow>
        place_opposite_order client original_order settings symbol_config s =
          (Inl (UnboundLocalError ''price''), s))"
proof (intro conjI impI)
  assume valid: "side original_order = SIDE_BUY \<or> side original_order = SIDE_SELL"
  show "\<forall>e. fst (place_opposite_order client original_order settings symbol_config s) = Inl e \<longrightarrow>
         e = EOFError \<or> (\<exists>g. e = GatewayException g \<and> (\<forall>m. g \<noteq> BinanceAPIException m))"
    using valid
    by (auto simp: place_opposite_order_def opposite_order_terms_def Let_def
        dest: submit_order_raises split: prod.splits flow.splits option.splits if_splits)
  show "case opposite_order_terms client original_order settings symbol_config s of
         (Return, s1) \<Rightarrow>
           place_opposite_order client original_order settings symbol_config s = (Inr (), s1) \<and>
           orders_db s1 = orders_db s \<and>
           placement_calls (trace s1) = placement_calls (trace s)
       | (Next b, s1) \<Rightarrow>
           (\<exists>sd v p. b = Some (sd, v, p) \<and>
              place_opposite_order client original_order settings symbol_config s =
                submit_order client original_order settings symbol_config (sd, v, p) s1)"
    using valid
  proof
    assume buy: "side original_order = SIDE_BUY"
    show ?thesis
      by (simp add: place_opposite_order_def opposite_order_terms_buy [OF buy refl] log_info_def
          placement_calls_append)
  next
    assume sell: "side original_order = SIDE_SELL"
    show ?thesis
      by (auto simp: place_opposite_order_def opposite_order_terms_sell [OF sell refl]
          log_info_def placement_calls_append
          dest: adaptive_guard_frame split: prod.splits flow.splits)
  qed
next
  assume "side original_order \<noteq> SIDE_BUY \<and> side original_order \<noteq> SIDE_SELL"
  then show "place_opposite_order client original_order settings symbol_config s =
          (Inl (UnboundLocalError ''price''), s)"
    by (simp add: place_opposite_order_def opposite_order_terms_other)
qed

theorem side_precondition_witness:
  "fst (place_opposite_order example_client (order_at ''SELL'' 100) example_settings
          example_config empty_state) = Inr () \<and>
   opposite_order_terms example_client (order_at ''SELL'' 100) example_settings
          example_config empty_state = (Next (Some (''BUY'', 1, 98.9)), empty_state) \<and>
   place_opposite_order example_client (order_at ''HOLD'' 100) example_settings example_config
       empty_state
     = (Inl (UnboundLocalError ''price''),
        empty_state)"
  using
    side_precondition [of "order_at ''SELL'' 100" example_client example_settings example_config
      empty_state]
    side_precondition [of "order_at ''HOLD'' 100" example_client example_settings example_config
      empty_state]
  by (simp add: example_defs engine_defs)

section \<open>The moving average\<close>

lemma py_sum_sum_list: "foldl (+) a xs = a + sum_list xs" for a :: real
  by (induction xs arbitrary: a) simp_all

text \<open>
  Claim C8. \<open>get_moving_average\<close> asks the gateway for one-minute candles with the
  period as the limit. When the gateway returns a non-empty list it returns the plain
  arithmetic mean of their closes, the sum divided by the count. It raises the
  no-data \<open>ValueError\<close> exactly when the gateway returns an empty list (a gateway
  exception is a different failure, and propagates).
\<close>

theorem moving_average_is_mean:
  "(fst (client_get_klines client symb KLINE_INTERVAL_1MINUTE minutes (world s)) = Inr klines \<and>
     klines \<noteq> [] \<longrightarrow>
      fst (get_moving_average client symb minutes s) =
        Inr (sum_list (map k_close klines) / real (length klines)))
   \<and> ((\<exists>msg. fst (get_moving_average client symb minutes s) = Inl (ValueError msg)) =
        (fst (client_get_klines client symb KLINE_INTERVAL_1MINUTE minutes (world s)) = Inr []))"
  by (auto simp: get_moving_average_def py_sum_def py_sum_sum_list Let_def
      split: prod.splits sum.splits)

theorem moving_average_is_mean_witness:
  "fst (get_moving_average candles_client ''BTCUSDT'' 3 empty_state) = Inr 100 \<and>
   fst (get_moving_average example_client ''BTCUSDT'' 3 empty_state) =
     Inl (ValueError ''No Kline data for BTCUSDT'')"
  using moving_average_is_mean [of candles_client "''BTCUSDT''" 3 empty_state
      "[candle 99, candle 100, candle 101]"]
    moving_average_is_mean [of example_client "''BTCUSDT''" 3 empty_state "[]"]
  by (simp add: example_defs get_moving_average_def py_sum_def)

section \<open>The ledger\<close>

text \<open>How the two mutators change the status the ledger holds for an order id.\<close>

lemma status_of_set_status:
  "status_of i (set_status j st db) =
     (if i = j then map_option (\<lambda>x. st) (status_of i db) else status_of i db)"
  by (induction db) (auto simp: status_of_def)

lemma status_of_append_other:
  "order_id r \<noteq> i \<Longrightarrow> status_of i (db @ [r]) = status_of i db"
  by (induction db) (auto simp: status_of_def)

lemma status_of_append_new:
  "status_of i db = None \<Longrightarrow> order_id r = i \<Longrightarrow> status_of i (db @ [r]) = Some (status r)"
  by (induction db) (auto simp: status_of_def split: if_splits)

lemma status_of_mark_order_filled:
  "status_of i (orders_db (mark_order_filled j s)) =
     (if i = j \<and> status_of i (orders_db s) \<noteq> None then Some ''FILLED''
      else status_of i (orders_db s))"
proof (cases "find (\<lambda>r. order_id r = j) (orders_db s)")
  case None
  then have "status_of j (orders_db s) = None" by (simp add: status_of_def)
  with None show ?thesis by (auto simp: mark_order_filled_def)
next
  case (Some r)
  then have "status_of j (orders_db s) = Some (status r)" by (simp add: status_of_def)
  with Some show ?thesis by (auto simp: mark_order_filled_def status_of_set_status)
qed

lemma status_of_save_or_update_other:
  "i \<notin> set (map o_orderId order_list) \<Longrightarrow>
     status_of i (orders_db (save_or_update_orders client order_list s)) =
     status_of i (orders_db s)"
proof (induction order_list arbitrary: s)
  case Nil
  then show ?case by simp
next
  case (Cons od order_list)
  then show ?case
    by (auto simp: status_of_set_status status_of_append_other split: option.splits prod.splits)
qed

lemma status_of_save_or_update_listed:
  "i \<in> set (map o_orderId order_list) \<Longrightarrow>
     status_of i (orders_db (save_or_update_orders client order_list s)) = Some ''OPEN''"
proof (induction order_list arbitrary: s)
  case Nil
  then show ?case by simp
next
  case (Cons od order_list)
  show ?case
  proof (cases "i \<in> set (map o_orderId order_list)")
    case True
    then show ?thesis using Cons.IH by (simp split: option.splits prod.splits)
  next
    case False
    with Cons.prems have i: "o_orderId od = i" by simp
    show ?thesis
    proof (cases "find (\<lambda>r. order_id r = i) (orders_db s)")
      case None
      then have "status_of i (orders_db s) = None" by (simp add: status_of_def)
      with None False i show ?thesis
        by (simp add: status_of_save_or_update_other status_of_append_new split: prod.splits)
    next
      case (Some r)
      then have "status_of i (orders_db s) = Some (status r)" by (simp add: status_of_def)
      with Some False i show ?thesis
        by (simp add: status_of_save_or_update_other status_of_set_status)
    qed
  qed
qed

lemma find_in_set: "r \<in> set db \<Longrightarrow> find (\<lambda>x. order_id x = order_id r) db \<noteq> None"
  by (auto simp: find_None_iff)

lemma status_of_listed_row:
  "r \<in> set (get_filled_orders syms s) \<Longrightarrow> status_of (order_id r) (orders_db s) \<noteq> None"
  using find_in_set [of r "orders_db s"] by (simp add: get_filled_orders_def status_of_def)

text \<open>
  Claim C3, as the code has it. A row that is FILLED stays FILLED through every run of
  upserts and fill marks in which no upsert lists its order id; \<open>mark_order_filled\<close>
  never reopens a row. An upsert that lists the id sets the row back to OPEN, whatever its
  status was.
\<close>

theorem filled_until_relisted:
  assumes "status_of i (orders_db s) = Some ''FILLED''"
  shows "((\<forall>ev \<in> set evs. \<not> lists_id i ev) \<longrightarrow>
            status_of i (orders_db (run_ops client evs s)) = Some ''FILLED'')
       \<and> (i \<in> set (map o_orderId order_list) \<longrightarrow>
            status_of i (orders_db (save_or_update_orders client order_list s)) = Some ''OPEN'')"
proof (intro conjI impI)
  assume "\<forall>ev \<in> set evs. \<not> lists_id i ev"
  with assms show "status_of i (orders_db (run_ops client evs s)) = Some ''FILLED''"
  proof (induction evs arbitrary: s)
    case Nil
    then show ?case by simp
  next
    case (Cons ev evs)
    have "status_of i (orders_db (apply_op client ev s)) = Some ''FILLED''"
      using Cons.prems
      by (cases ev) (simp_all add: status_of_save_or_update_other status_of_mark_order_filled)
    with Cons show ?case by simp
  qed
next
  assume "i \<in> set (map o_orderId order_list)"
  then show "status_of i (orders_db (save_or_update_orders client order_list s)) = Some ''OPEN''"
    by (rule status_of_save_or_update_listed)
qed

theorem filled_until_relisted_witness:
  "status_of 7 (orders_db (run_ops example_client [Upsert [live 7], MarkFilled 7] empty_state))
     = Some ''FILLED'' \<and>
   status_of 7 (orders_db (run_ops example_client
       [Upsert [live 7], MarkFilled 7, Upsert [live 8], MarkFilled 8, MarkFilled 7] empty_state))
     = Some ''FILLED'' \<and>
   status_of 7 (orders_db (save_or_update_orders example_client [live 8, live 7]
       (run_ops example_client [Upsert [live 7], MarkFilled 7] empty_state)))
     = Some ''OPEN''"
  using filled_until_relisted [where i = 7
      and s = "run_ops example_client [Upsert [live 7], MarkFilled 7] empty_state"
      and evs = "[Upsert [live 8], MarkFilled 8, MarkFilled 7]"
      and order_list = "[live 8, live 7]" and client = example_client]
  by (simp add: example_defs mark_order_filled_def status_of_def)

text \<open>The claim as the spec states it fails: after an upsert, a fill mark and a second
  upsert that lists the same order, the status has gone from FILLED back to OPEN.\<close>

theorem filled_reopened_counterexample:
  "status_of 7 (orders_db (run_ops example_client [Upsert [live 7], MarkFilled 7] empty_state))
     = Some ''FILLED'' \<and>
   status_of 7 (orders_db (run_ops example_client
       [Upsert [live 7], MarkFilled 7, Upsert [live 7]] empty_state))
     = Some ''OPEN''"
  by (simp add: example_defs mark_order_filled_def status_of_def)

text \<open>The bot itself reaches such a run. In a first cycle the open-orders fetch fails and
  the open row 7 is marked FILLED; in the next cycle the exchange lists order 7 again and
  the upsert sets the row back to OPEN.\<close>

lemma reopened_across_cycles:
  "status_of 7 (orders_db (snd (symbol_cycle no_orders_client example_settings ''BTCUSDT''
       example_config (ledger_state [order_at ''BUY'' 100])))) = Some ''FILLED''"
  "status_of 7 (orders_db (snd (symbol_cycle relisting_client example_settings ''BTCUSDT''
       example_config
       (snd (symbol_cycle no_orders_client example_settings ''BTCUSDT'' example_config
          (ledger_state [order_at ''BUY'' 100])))))) = Some ''OPEN''"
  by (simp_all add: example_defs engine_defs cycle_defs)

section \<open>The poll cycle\<close>

subsection \<open>What a call of the engine adds to the trace\<close>

lemma opposite_order_terms_db:
  "orders_db (snd (opposite_order_terms client original_order settings symbol_config s)) =
     orders_db s"
  by (auto simp: opposite_order_terms_def Let_def log_info_def
      dest: adaptive_guard_frame split: prod.splits flow.splits)

lemma place_opposite_order_db:
  "orders_db (snd (place_opposite_order client original_order settings symbol_config s)) =
     orders_db s"
  using opposite_order_terms_db [of client original_order settings symbol_config s]
  by (auto simp: place_opposite_order_def submit_order_db split: prod.splits flow.splits option.splits)

lemma new_events_append [simp]: "trace s1 = trace s @ evs \<Longrightarrow> new_events s s1 = evs"
  by (simp add: new_events_def)

lemma adaptive_guard_events:
  assumes "adaptive_guard client symb symbol_config p s = (f, s1)"
  shows "\<exists>evs. trace s1 = trace s @ evs \<and> (\<forall>req a. CreateOrder req a \<notin> set evs)"
  using assms
  by (auto simp: adaptive_guard_def get_moving_average_def Let_def log_info_def log_error_def
      split: prod.splits sum.splits if_splits)

lemma opposite_order_terms_events:
  assumes "opposite_order_terms client original_order settings symbol_config s = (f, s1)"
  shows "\<exists>evs. trace s1 = trace s @ evs \<and> (\<forall>req a. CreateOrder req a \<notin> set evs)"
  using assms
  by (auto simp: opposite_order_terms_def Let_def log_info_def
      dest: adaptive_guard_events split: prod.splits flow.splits if_splits)

lemma submit_order_events:
  assumes "submit_order client original_order settings symbol_config bound s = (r, s1)"
  shows "\<exists>evs. trace s1 = trace s @ evs \<and>
       (\<forall>req g. CreateOrder req (Inl g) \<in> set evs \<longrightarrow>
          (\<forall>m. g = BinanceAPIException m \<longrightarrow>
             r = Inr () \<and>
             (\<exists>evs0. evs = evs0 @ [CreateOrder req (Inl g), LogError (FailedToPlace m)])) \<and>
          ((\<forall>m. g \<noteq> BinanceAPIException m) \<longrightarrow>
             r = Inl (GatewayException g) \<and> (\<exists>evs0. evs = evs0 @ [CreateOrder req (Inl g)])))"
  using assms
  by (cases bound)
    (auto simp: submit_order_def Let_def log_info_def log_error_def py_print_def
      split: prod.splits sum.splits option.splits gateway_exception.splits if_splits)

lemma place_opposite_order_events:
  assumes "place_opposite_order client original_order settings symbol_config s = (r, s1)"
  shows "\<exists>evs. trace s1 = trace s @ evs \<and>
       (\<forall>req g. CreateOrder req (Inl g) \<in> set evs \<longrightarrow>
          (\<forall>m. g = BinanceAPIException m \<longrightarrow>
             r = Inr () \<and>
             (\<exists>evs0. evs = evs0 @ [CreateOrder req (Inl g), LogError (FailedToPlace m)])) \<and>
          ((\<forall>m. g \<noteq> BinanceAPIException m) \<longrightarrow>
             r = Inl (GatewayException g) \<and> (\<exists>evs0. evs = evs0 @ [CreateOrder req (Inl g)])))"
proof (cases "opposite_order_terms client original_order settings symbol_config s")
  case (Pair f s0)
  from opposite_order_terms_events [OF Pair] obtain evs0
    where evs0: "trace s0 = trace s @ evs0" "\<forall>req a. CreateOrder req a \<notin> set evs0"
    by blast
  show ?thesis
  proof (cases f)
    case Return
    with Pair assms evs0 show ?thesis by (auto simp: place_opposite_order_def)
  next
    case (Next b)
    show ?thesis
    proof (cases b)
      case None
      with Next Pair assms evs0 show ?thesis by (auto simp: place_opposite_order_def)
    next
      case (Some bound)
      with Next Pair assms
      have sub: "submit_order client original_order settings symbol_config bound s0 = (r, s1)"
        by (simp add: place_opposite_order_def)
      from submit_order_events [OF sub] obtain evs1
        where evs1: "trace s1 = trace s0 @ evs1"
          and fail: "\<forall>req g. CreateOrder req (Inl g) \<in> set evs1 \<longrightarrow>
            (\<forall>m. g = BinanceAPIException m \<longrightarrow>
               r = Inr () \<and>
               (\<exists>e. evs1 = e @ [CreateOrder req (Inl g), LogError (FailedToPlace m)])) \<and>
            ((\<forall>m. g \<noteq> BinanceAPIException m) \<longrightarrow>
               r = Inl (GatewayException g) \<and> (\<exists>e. evs1 = e @ [CreateOrder req (Inl g)]))"
        by blast
      have tr: "trace s1 = trace s @ (evs0 @ evs1)" using evs0 evs1 by simp
      have "(\<forall>m. g = BinanceAPIException m \<longrightarrow>
               r = Inr () \<and>
               (\<exists>e. evs0 @ evs1 = e @ [CreateOrder req (Inl g), LogError (FailedToPlace m)])) \<and>
            ((\<forall>m. g \<noteq> BinanceAPIException m) \<longrightarrow>
               r = Inl (GatewayException g) \<and> (\<exists>e. evs0 @ evs1 = e @ [CreateOrder req (Inl g)]))"
        if "CreateOrder req (Inl g) \<in> set (evs0 @ evs1)" for req g
      proof -
        from that evs0(2) have "CreateOrder req (Inl g) \<in> set evs1" by auto
        with fail have f: "(\<forall>m. g = BinanceAPIException m \<longrightarrow>
               r = Inr () \<and>
               (\<exists>e. evs1 = e @ [CreateOrder req (Inl g), LogError (FailedToPlace m)])) \<and>
            ((\<forall>m. g \<noteq> BinanceAPIException m) \<longrightarrow>
               r = Inl (GatewayException g) \<and> (\<exists>e. evs1 = e @ [CreateOrder req (Inl g)]))"
          by blast
        have ext: "\<exists>e. evs0 @ evs1 = e @ tl" if "\<exists>e. evs1 = e @ tl" for tl :: "event list"
        proof -
          from that obtain e where "evs1 = e @ tl" by blast
          then have "evs0 @ evs1 = (evs0 @ e) @ tl" by simp
          then show ?thesis by blast
        qed
        from f ext show ?thesis by blast
      qed
      with tr show ?thesis by blast
    qed
  qed
qed

lemma place_opposite_order_db_eq:
  "place_opposite_order client original_order settings symbol_config s = (r, s1) \<Longrightarrow>
     orders_db s1 = orders_db s"
  using place_opposite_order_db [of client original_order settings symbol_config s] by simp

subsection \<open>The loop over the open rows\<close>

lemma fill_loop_append:
  "fill_loop client settings cfg symb ids (xs @ ys) s =
     (case fill_loop client settings cfg symb ids xs s of
        (Inl e, s1) \<Rightarrow> (Inl e, s1)
      | (Inr u, s1) \<Rightarrow> fill_loop client settings cfg symb ids ys s1)"
  by (induction xs arbitrary: s) (auto split: prod.splits sum.splits)

lemma fill_loop_preserves:
  assumes call: "\<And>order s r s1. P s \<Longrightarrow>
      place_opposite_order client order settings cfg
        (log_info (OrderExecuted (side order) symb (volume order) (price order)) s) = (r, s1)
      \<Longrightarrow> P s1"
    and mark: "\<And>i s. P s \<Longrightarrow> P (mark_order_filled i s)"
    and init: "P s"
  shows "P (snd (fill_loop client settings cfg symb ids xs s))"
  using init
proof (induction xs arbitrary: s)
  case Nil
  then show ?case by simp
next
  case (Cons order xs)
  show ?case
  proof (cases "order_id order \<in> ids")
    case True
    with Cons show ?thesis by simp
  next
    case False
    obtain r s1 where eq: "place_opposite_order client order settings cfg
        (log_info (OrderExecuted (side order) symb (volume order) (price order)) s) = (r, s1)"
      by (cases "place_opposite_order client order settings cfg
        (log_info (OrderExecuted (side order) symb (volume order) (price order)) s)")
    from call [OF Cons.prems eq] have s1: "P s1" .
    show ?thesis
    proof (cases r)
      case (Inl e)
      with False eq s1 show ?thesis by simp
    next
      case (Inr u)
      from Cons.IH [OF mark [OF s1]] False eq Inr show ?thesis by simp
    qed
  qed
qed

lemma trace_mark_order_filled: "trace (mark_order_filled i s) = trace s"
  by (simp add: mark_order_filled_def split: option.splits)

lemma fill_loop_keeps_filled:
  assumes "status_of i (orders_db s) = Some ''FILLED''"
  shows "status_of i (orders_db (snd (fill_loop client settings cfg symb ids xs s))) =
           Some ''FILLED''"
proof (rule fill_loop_preserves [where P = "\<lambda>s. status_of i (orders_db s) = Some ''FILLED''"])
  show "status_of i (orders_db s1) = Some ''FILLED''"
    if "status_of i (orders_db s0) = Some ''FILLED''"
      and "place_opposite_order client order settings cfg
        (log_info (OrderExecuted (side order) symb (volume order) (price order)) s0) = (r, s1)"
    for order s0 r s1
    using that place_opposite_order_db_eq [OF that(2)] by (simp add: log_info_def)
qed (simp_all add: status_of_mark_order_filled assms)

lemma fill_loop_keeps_rows:
  assumes "status_of i (orders_db s) \<noteq> None"
  shows "status_of i (orders_db (snd (fill_loop client settings cfg symb ids xs s))) \<noteq> None"
proof (rule fill_loop_preserves [where P = "\<lambda>s. status_of i (orders_db s) \<noteq> None"])
  show "status_of i (orders_db s1) \<noteq> None"
    if "status_of i (orders_db s0) \<noteq> None"
      and "place_opposite_order client order settings cfg
        (log_info (OrderExecuted (side order) symb (volume order) (price order)) s0) = (r, s1)"
    for order s0 r s1
    using that place_opposite_order_db_eq [OF that(2)] by (simp add: log_info_def)
qed (simp_all add: status_of_mark_order_filled assms)

lemma fill_loop_trace:
  "\<exists>evs. trace (snd (fill_loop client settings cfg symb ids xs s)) = trace s @ evs"
proof (rule fill_loop_preserves [where P = "\<lambda>s1. \<exists>evs. trace s1 = trace s @ evs"])
  show "\<exists>evs. trace s1 = trace s @ evs"
    if "\<exists>evs. trace s0 = trace s @ evs"
      and "place_opposite_order client order settings cfg
        (log_info (OrderExecuted (side order) symb (volume order) (price order)) s0) = (r, s1)"
    for order s0 r s1
    using that(1) place_opposite_order_events [OF that(2)] by (auto simp: log_info_def)
qed (simp_all add: trace_mark_order_filled)



text \<open>The loop at a row that is not live, once it has come to it.\<close>

lemma fill_loop_at_row:
  assumes "fill_loop client settings cfg symb ids pre s3 = (Inr (), s0)"
    and "order_id order \<notin> ids"
    and "place_opposite_order client order settings cfg
        (log_info (OrderExecuted (side order) symb (volume order) (price order)) s0) = (r, s1)"
  shows "fill_loop client settings cfg symb ids (pre @ order # rest) s3 =
     (case r of
        Inl e \<Rightarrow> (Inl e, s1)
      | Inr u \<Rightarrow>
          fill_loop client settings cfg symb ids rest (mark_order_filled (order_id order) s1))"
  using assms by (simp add: fill_loop_append split: sum.splits)

lemma fill_loop_marks_row:
  assumes pre: "fill_loop client settings cfg symb ids pre s3 = (Inr (), s0)"
    and new: "order_id order \<notin> ids"
    and call: "place_opposite_order client order settings cfg
        (log_info (OrderExecuted (side order) symb (volume order) (price order)) s0) = (Inr u, s1)"
    and row: "status_of (order_id order) (orders_db s3) \<noteq> None"
  shows "status_of (order_id order) (orders_db (mark_order_filled (order_id order) s1)) =
           Some ''FILLED''"
    and "status_of (order_id order)
           (orders_db (snd (fill_loop client settings cfg symb ids (pre @ order # rest) s3))) =
           Some ''FILLED''"
proof -
  from row have "status_of (order_id order)
      (orders_db (snd (fill_loop client settings cfg symb ids pre s3))) \<noteq> None"
    by (rule fill_loop_keeps_rows)
  then have "status_of (order_id order) (orders_db s0) \<noteq> None" using pre by simp
  moreover have "orders_db s1 = orders_db s0"
    using place_opposite_order_db_eq [OF call] by (simp add: log_info_def)
  ultimately show marked:
    "status_of (order_id order) (orders_db (mark_order_filled (order_id order) s1)) = Some ''FILLED''"
    by (simp add: status_of_mark_order_filled)
  then have "status_of (order_id order)
      (orders_db (snd (fill_loop client settings cfg symb ids rest
         (mark_order_filled (order_id order) s1)))) = Some ''FILLED''"
    by (rule fill_loop_keeps_filled)
  then show "status_of (order_id order)
           (orders_db (snd (fill_loop client settings cfg symb ids (pre @ order # rest) s3))) =
           Some ''FILLED''"
    using fill_loop_at_row [OF pre new call, of rest] by simp
qed

subsection \<open>The rest of the cycle\<close>

lemma print_open_orders_db: "orders_db (print_open_orders cfg xs s) = orders_db s"
  by (induction xs arbitrary: s) (simp_all add: py_print_def Let_def)

lemma print_open_orders_trace:
  "trace (print_open_orders cfg xs s) =
     trace s @
     map (\<lambda>od. Print (OrderLine (o_symbol od) (o_side od)
            (Fixed (o_origQty od) (case volume_precision cfg of None \<Rightarrow> 1 | Some p \<Rightarrow> p))
            (o_price od))) xs"
  by (induction xs arbitrary: s) (simp_all add: py_print_def Let_def)

lemma save_or_update_orders_trace: "trace (save_or_update_orders client xs s) = trace s"
  by (induction xs arbitrary: s) (auto split: option.splits prod.splits)

lemma symbol_cycle_loop:
  assumes "get_current_price client symb s = (Inr current_price, sa)"
    and "get_open_orders client symb sa = (Inr open_orders, sb)"
    and "s3 = save_or_update_orders client open_orders sb"
  shows "symbol_cycle client settings symb cfg s =
     (case fill_loop client settings cfg symb (set (map o_orderId open_orders))
             (get_filled_orders [symb] s3) s3 of
        (Inl e, s4) \<Rightarrow> (Inl e, s4)
      | (Inr u, s4) \<Rightarrow>
          (case time_time client (world s4) of (current_time, w) \<Rightarrow>
             (case current_price of
                None \<Rightarrow>
                  (Inl (TypeError ''unsupported format string passed to NoneType.__format__''),
                   s4\<lparr>world := w\<rparr>)
              | Some p \<Rightarrow>
                  (Inr (),
                   py_print BlankLine
                     (print_open_orders cfg open_orders
                        (py_print
                           (StatusLine symb p (length open_orders) (profit_percent cfg)
                              current_time)
                           (s4\<lparr>world := w\<rparr>)))))))"
  using assms by (simp add: symbol_cycle_def Let_def)

lemma symbol_cycle_db:
  assumes "get_current_price client symb s = (Inr current_price, sa)"
    and "get_open_orders client symb sa = (Inr open_orders, sb)"
    and "s3 = save_or_update_orders client open_orders sb"
  shows "orders_db (snd (symbol_cycle client settings symb cfg s)) =
     orders_db (snd (fill_loop client settings cfg symb (set (map o_orderId open_orders))
        (get_filled_orders [symb] s3) s3))"
  unfolding symbol_cycle_loop [OF assms]
  by (auto simp: py_print_def print_open_orders_db split: prod.splits sum.splits option.splits)

subsection \<open>Gateway errors in a cycle\<close>

text \<open>
  Claim C7, as the code has it. Take a cycle for a symbol, the point where its loop has
  come to an open row \<open>order\<close> whose id is not live, and the call of
  \<open>place_opposite_order\<close> made for it, in which the placement call raised the gateway
  exception \<open>g\<close>. If \<open>g\<close> is a \<open>BinanceAPIException\<close> with message \<open>m\<close>, the
  invocation returns normally, the last thing it does is log the error, the loop goes on
  with \<open>mark_order_filled\<close> for this row, and the row is FILLED after the mark and at
  the end of the cycle. If \<open>g\<close> is any other exception, it leaves
  \<open>place_opposite_order\<close> and ends the cycle: nothing is logged after the call, the row
  is not marked, and the ledger is as it was when the loop came to the row.
\<close>

theorem placement_error_outcomes:
  assumes gcp: "get_current_price client symb s = (Inr current_price, sa)"
    and goo: "get_open_orders client symb sa = (Inr open_orders, sb)"
    and s3: "s3 = save_or_update_orders client open_orders sb"
    and ids: "ids = set (map o_orderId open_orders)"
    and ex: "get_filled_orders [symb] s3 = pre @ order # rest"
    and fill: "order_id order \<notin> ids"
    and pre: "fill_loop client settings cfg symb ids pre s3 = (Inr (), s0)"
    and call: "place_opposite_order client order settings cfg
        (log_info (OrderExecuted (side order) symb (volume order) (price order)) s0) = (r, s1)"
    and fail: "CreateOrder request (Inl g) \<in> set (new_events s0 s1)"
  shows "(\<forall>m. g = BinanceAPIException m \<longrightarrow>
            r = Inr () \<and>
            last (trace s1) = LogError (FailedToPlace m) \<and>
            fill_loop client settings cfg symb ids (pre @ order # rest) s3 =
              fill_loop client settings cfg symb ids rest (mark_order_filled (order_id order) s1) \<and>
            status_of (order_id order) (orders_db (mark_order_filled (order_id order) s1)) =
              Some ''FILLED'' \<and>
            status_of (order_id order) (orders_db (snd (symbol_cycle client settings symb cfg s))) =
              Some ''FILLED'')
       \<and> ((\<forall>m. g \<noteq> BinanceAPIException m) \<longrightarrow>
            r = Inl (GatewayException g) \<and>
            last (trace s1) = CreateOrder request (Inl g) \<and>
            orders_db s1 = orders_db s0 \<and>
            symbol_cycle client settings symb cfg s = (Inl (GatewayException g), s1))"
proof -
  from place_opposite_order_events [OF call] obtain evs
    where evs: "trace s1 =
        trace s0 @ LogInfo (OrderExecuted (side order) symb (volume order) (price order)) # evs"
      and failed: "\<forall>req g. CreateOrder req (Inl g) \<in> set evs \<longrightarrow>
          (\<forall>m. g = BinanceAPIException m \<longrightarrow>
             r = Inr () \<and>
             (\<exists>evs0. evs = evs0 @ [CreateOrder req (Inl g), LogError (FailedToPlace m)])) \<and>
          ((\<forall>m. g \<noteq> BinanceAPIException m) \<longrightarrow>
             r = Inl (GatewayException g) \<and> (\<exists>evs0. evs = evs0 @ [CreateOrder req (Inl g)]))"
    by (auto simp: log_info_def)
  from evs fail have mem: "CreateOrder request (Inl g) \<in> set evs" by simp
  have db: "orders_db s1 = orders_db s0"
    using place_opposite_order_db_eq [OF call] by (simp add: log_info_def)
  have "order \<in> set (get_filled_orders [symb] s3)" using ex by simp
  then have row: "status_of (order_id order) (orders_db s3) \<noteq> None"
    by (rule status_of_listed_row)
  note cyc = symbol_cycle_loop [OF gcp goo s3, of settings cfg]
  note cdb = symbol_cycle_db [OF gcp goo s3, of settings cfg]
  show ?thesis
  proof (intro conjI allI impI)
    fix m assume api: "g = BinanceAPIException m"
    with failed mem obtain evs0 where r: "r = Inr ()"
      and evs0: "evs = evs0 @ [CreateOrder request (Inl g), LogError (FailedToPlace m)]"
      by blast
    show "r = Inr ()" by (rule r)
    show "last (trace s1) = LogError (FailedToPlace m)" using evs evs0 by simp
    from call r have call': "place_opposite_order client order settings cfg
        (log_info (OrderExecuted (side order) symb (volume order) (price order)) s0) = (Inr (), s1)"
      by simp
    show "fill_loop client settings cfg symb ids (pre @ order # rest) s3 =
              fill_loop client settings cfg symb ids rest (mark_order_filled (order_id order) s1)"
      using fill_loop_at_row [OF pre fill call', of rest] by simp
    show "status_of (order_id order) (orders_db (mark_order_filled (order_id order) s1)) =
              Some ''FILLED''"
      by (rule fill_loop_marks_row(1) [OF pre fill call' row])
    show "status_of (order_id order) (orders_db (snd (symbol_cycle client settings symb cfg s))) =
              Some ''FILLED''"
      using fill_loop_marks_row(2) [OF pre fill call' row, of rest] cdb ex ids by simp
  next
    assume other: "\<forall>m. g \<noteq> BinanceAPIException m"
    with failed mem obtain evs0 where r: "r = Inl (GatewayException g)"
      and evs0: "evs = evs0 @ [CreateOrder request (Inl g)]"
      by blast
    show "r = Inl (GatewayException g)" by (rule r)
    show "last (trace s1) = CreateOrder request (Inl g)" using evs evs0 by simp
    show "orders_db s1 = orders_db s0" by (rule db)
    have "fill_loop client settings cfg symb ids (pre @ order # rest) s3 =
        (Inl (GatewayException g), s1)"
      using fill_loop_at_row [OF pre fill call, of rest] r by simp
    then show "symbol_cycle client settings symb cfg s = (Inl (GatewayException g), s1)"
      using cyc ex ids by simp
  qed
qed

theorem placement_error_outcomes_witness:
  "symbol_cycle rejecting_client example_settings ''BTCUSDT'' example_config
       (ledger_state [order_at ''BUY'' 100])
     = (Inr (),
        \<lparr>world = (), orders_db = [(order_at ''BUY'' 100)\<lparr>status := ''FILLED''\<rparr>],
         trace =
           [LogInfo (OrderExecuted ''BUY'' ''BTCUSDT'' 1 100),
            LogInfo (ReadyToPlace ''SELL'' ''BTCUSDT'' 2 (Fixed 101.2 2)),
            CreateOrder \<lparr>r_symbol = ''BTCUSDT'', r_side = ''SELL'', r_type = ''LIMIT'',
                         r_quantity = 2, r_price = Fixed 101.2 2, r_timeInForce = ''GTC''\<rparr>
              (Inl (BinanceAPIException ''Account has insufficient balance'')),
            LogError (FailedToPlace ''Account has insufficient balance''),
            Print (StatusLine ''BTCUSDT'' 100 0 1 0),
            Print BlankLine]\<rparr>) \<and>
   status_of 7 (orders_db (snd (symbol_cycle rejecting_client example_settings ''BTCUSDT''
       example_config (ledger_state [order_at ''BUY'' 100])))) = Some ''FILLED'' \<and>
   symbol_cycle dropping_client example_settings ''BTCUSDT'' example_config
       (ledger_state [order_at ''BUY'' 100])
     = (Inl (GatewayException (RequestException ''Connection aborted'')),
        \<lparr>world = (), orders_db = [order_at ''BUY'' 100],
         trace =
           [LogInfo (OrderExecuted ''BUY'' ''BTCUSDT'' 1 100),
            LogInfo (ReadyToPlace ''SELL'' ''BTCUSDT'' 2 (Fixed 101.2 2)),
            CreateOrder \<lparr>r_symbol = ''BTCUSDT'', r_side = ''SELL'', r_type = ''LIMIT'',
                         r_quantity = 2, r_price = Fixed 101.2 2, r_timeInForce = ''GTC''\<rparr>
              (Inl (RequestException ''Connection aborted''))]\<rparr>)"
  using placement_error_outcomes [where client = rejecting_client and symb = "''BTCUSDT''"
      and s = "ledger_state [order_at ''BUY'' 100]" and current_price = "Some 100"
      and sa = "ledger_state [order_at ''BUY'' 100]" and open_orders = "[]"
      and sb = "ledger_state [order_at ''BUY'' 100]"
      and ?s3.0 = "ledger_state [order_at ''BUY'' 100]" and ids = "{}" and pre = "[]"
      and order = "order_at ''BUY'' 100" and rest = "[]"
      and ?s0.0 = "ledger_state [order_at ''BUY'' 100]" and settings = example_settings
      and cfg = example_config and r = "Inr ()"
      and ?s1.0 = "\<lparr>world = (), orders_db = [order_at ''BUY'' 100],
         trace =
           [LogInfo (OrderExecuted ''BUY'' ''BTCUSDT'' 1 100),
            LogInfo (ReadyToPlace ''SELL'' ''BTCUSDT'' 2 (Fixed 101.2 2)),
            CreateOrder \<lparr>r_symbol = ''BTCUSDT'', r_side = ''SELL'', r_type = ''LIMIT'',
                         r_quantity = 2, r_price = Fixed 101.2 2, r_timeInForce = ''GTC''\<rparr>
              (Inl (BinanceAPIException ''Account has insufficient balance'')),
            LogError (FailedToPlace ''Account has insufficient balance'')]\<rparr>"
      and request = "\<lparr>r_symbol = ''BTCUSDT'', r_side = ''SELL'', r_type = ''LIMIT'',
                         r_quantity = 2, r_price = Fixed 101.2 2, r_timeInForce = ''GTC''\<rparr>"
      and g = "BinanceAPIException ''Account has insufficient balance''"]
    placement_error_outcomes [where client = dropping_client and symb = "''BTCUSDT''"
      and s = "ledger_state [order_at ''BUY'' 100]" and current_price = "Some 100"
      and sa = "ledger_state [order_at ''BUY'' 100]" and open_orders = "[]"
      and sb = "ledger_state [order_at ''BUY'' 100]"
      and ?s3.0 = "ledger_state [order_at ''BUY'' 100]" and ids = "{}" and pre = "[]"
      and order = "order_at ''BUY'' 100" and rest = "[]"
      and ?s0.0 = "ledger_state [order_at ''BUY'' 100]" and settings = example_settings
      and cfg = example_config and r = "Inl (GatewayException (RequestException ''Connection aborted''))"
      and ?s1.0 = "\<lparr>world = (), orders_db = [order_at ''BUY'' 100],
         trace =
           [LogInfo (OrderExecuted ''BUY'' ''BTCUSDT'' 1 100),
            LogInfo (ReadyToPlace ''SELL'' ''BTCUSDT'' 2 (Fixed 101.2 2)),
            CreateOrder \<lparr>r_symbol = ''BTCUSDT'', r_side = ''SELL'', r_type = ''LIMIT'',
                         r_quantity = 2, r_price = Fixed 101.2 2, r_timeInForce = ''GTC''\<rparr>
              (Inl (RequestException ''Connection aborted''))]\<rparr>"
      and request = "\<lparr>r_symbol = ''BTCUSDT'', r_side = ''SELL'', r_type = ''LIMIT'',
                         r_quantity = 2, r_price = Fixed 101.2 2, r_timeInForce = ''GTC''\<rparr>"
      and g = "RequestException ''Connection aborted''"]
  by (simp add: example_defs engine_defs cycle_defs)

text \<open>The claim as the spec states it fails for a gateway error that is not a
  \<open>BinanceAPIException\<close>: when the connection fails in the placement call, the cycle
  ends with that exception, no error line is logged, and the row is still OPEN.\<close>

theorem placement_error_escapes_counterexample:
  "symbol_cycle dropping_client example_settings ''BTCUSDT'' example_config
       (ledger_state [order_at ''BUY'' 100])
     = (Inl (GatewayException (RequestException ''Connection aborted'')),
        \<lparr>world = (), orders_db = [order_at ''BUY'' 100],
         trace =
           [LogInfo (OrderExecuted ''BUY'' ''BTCUSDT'' 1 100),
            LogInfo (ReadyToPlace ''SELL'' ''BTCUSDT'' 2 (Fixed 101.2 2)),
            CreateOrder \<lparr>r_symbol = ''BTCUSDT'', r_side = ''SELL'', r_type = ''LIMIT'',
                         r_quantity = 2, r_price = Fixed 101.2 2, r_timeInForce = ''GTC''\<rparr>
              (Inl (RequestException ''Connection aborted''))]\<rparr>) \<and>
   status_of 7 (orders_db (snd (symbol_cycle dropping_client example_settings ''BTCUSDT''
       example_config (ledger_state [order_at ''BUY'' 100])))) = Some ''OPEN''"
  by (simp add: example_defs engine_defs cycle_defs)




text \<open>
  Claim C4 fails on the code. When the price fetch fails with a \<open>BinanceAPIException\<close>,
  the error is logged and the price is \<open>None\<close>, but the cycle does not run to
  completion: it ends with an exception, as it does when the fetch raises anything else.
  In the witness nothing else goes wrong, and the exception is the \<open>TypeError\<close> of
  formatting \<open>None\<close> in the status line, before anything is printed.
\<close>

theorem price_failure_aborts_cycle:
  assumes "client_get_symbol_ticker client symb (world s) = (Inl g, w)"
  shows "(\<forall>m. g = BinanceAPIException m \<longrightarrow>
            get_current_price client symb s =
              (Inr None, log_error (FailedFetchPrice symb m) (s\<lparr>world := w\<rparr>)))
       \<and> (\<exists>e. fst (symbol_cycle client settings symb cfg s) = Inl e)"
  using assms
  by (auto simp: symbol_cycle_def get_current_price_def Let_def
      split: prod.splits sum.splits gateway_exception.splits)

theorem price_failure_aborts_cycle_witness:
  "symbol_cycle no_price_client example_settings ''BTCUSDT'' example_config empty_state
     = (Inl (TypeError ''unsupported format string passed to NoneType.__format__''),
        empty_state\<lparr>trace := [LogError (FailedFetchPrice ''BTCUSDT'' ''Too many requests'')]\<rparr>)"
  using price_failure_aborts_cycle [of no_price_client "''BTCUSDT''" empty_state
      "BinanceAPIException ''Too many requests''" "()" example_settings example_config]
  by (simp add: example_defs engine_defs cycle_defs)

end
